theory Spec2Isabelle
  imports Complex_Main
begin

section \<open>Python values used by the program\<close>

text \<open>
  The program is one Python module, \<^verbatim>\<open>gpx_hr_merger.py\<close>. Its floats are modelled as
  real numbers, its unbounded integers as \<^typ>\<open>int\<close>, its strings as \<^typ>\<open>string\<close>.
  Every exception the code can raise is a value of \<open>py_error\<close>, returned on the left of a
  sum.
\<close>

datatype py_error = ValueError | TypeError | AttributeError | XMLParseError | FileNotFoundError

text \<open>
  A \<^verbatim>\<open>datetime\<close> holds its wall-clock fields (here: microseconds since the epoch) and an
  optional UTC offset. It is naive when the offset is absent, aware otherwise.
\<close>

record datetime =
  wall_us :: int
  utcoffset_us :: "int option"

text \<open>
  \<^verbatim>\<open>a - b\<close> on two datetimes: the difference of the wall clocks when both are naive, of
  the UTC instants when both are aware, and a \<^verbatim>\<open>TypeError\<close> when one is naive and the
  other aware. The result is the timedelta in microseconds.
\<close>

definition dt_sub :: "datetime \<Rightarrow> datetime \<Rightarrow> py_error + int" where
  "dt_sub a b =
     (case utcoffset_us a of
        None \<Rightarrow> (case utcoffset_us b of
                   None \<Rightarrow> Inr (wall_us a - wall_us b)
                 | Some ob \<Rightarrow> Inl TypeError)
      | Some oa \<Rightarrow> (case utcoffset_us b of
                      None \<Rightarrow> Inl TypeError
                    | Some ob \<Rightarrow> Inr ((wall_us a - oa) - (wall_us b - ob))))"

definition total_seconds :: "int \<Rightarrow> real" where
  "total_seconds us = real_of_int us / 1000000"

text \<open>
  The library functions the module calls but does not define are parameters of the
  model: \<^verbatim>\<open>datetime.fromisoformat\<close>, \<^verbatim>\<open>float\<close> and \<^verbatim>\<open>int\<close> on a string. Each returns
  \<open>None\<close> where the library raises \<^verbatim>\<open>ValueError\<close>.
\<close>

record pylib =
  fromisoformat :: "string \<Rightarrow> datetime option"
  py_float :: "string \<Rightarrow> real option"
  py_int :: "string \<Rightarrow> int option"

text \<open>\<^verbatim>\<open>float(x)\<close> and \<^verbatim>\<open>int(x)\<close> where \<^verbatim>\<open>x\<close> may be \<^verbatim>\<open>None\<close> (a \<^verbatim>\<open>TypeError\<close>).\<close>

definition to_float :: "pylib \<Rightarrow> string option \<Rightarrow> py_error + real" where
  "to_float L x =
     (case x of
        None \<Rightarrow> Inl TypeError
      | Some s \<Rightarrow> (case py_float L s of None \<Rightarrow> Inl ValueError | Some r \<Rightarrow> Inr r))"

definition to_int :: "pylib \<Rightarrow> string option \<Rightarrow> py_error + int" where
  "to_int L x =
     (case x of
        None \<Rightarrow> Inl TypeError
      | Some s \<Rightarrow> (case py_int L s of None \<Rightarrow> Inl ValueError | Some i \<Rightarrow> Inr i))"

text \<open>\<^verbatim>\<open>s.replace(c, r)\<close> for a one-character pattern: every occurrence is replaced.\<close>

definition str_replace :: "char \<Rightarrow> string \<Rightarrow> string \<Rightarrow> string" where
  "str_replace c r s = concat (map (\<lambda>x. if x = c then r else [x]) s)"

section \<open>Time parsing\<close>

text \<open>
  \<^verbatim>\<open>parse_time\<close>, lines 18 to 30. \<^verbatim>\<open>t.split(".")[0]\<close> is the text before the first dot.
  The second call of \<^verbatim>\<open>fromisoformat\<close> is outside any handler, so its \<^verbatim>\<open>ValueError\<close>
  leaves the function.
\<close>

definition parse_time :: "pylib \<Rightarrow> string \<Rightarrow> py_error + datetime" where
  "parse_time L t0 =
     (let t = str_replace CHR ''Z'' ''+00:00'' t0 in
      case fromisoformat L t of
        Some d \<Rightarrow> Inr d
      | None \<Rightarrow>
          (let t' = (if CHR ''.'' \<in> set t
                     then takeWhile (\<lambda>x. x \<noteq> CHR ''.'') t @ ''+00:00''
                     else t)
           in case fromisoformat L t' of
                Some d \<Rightarrow> Inr d
              | None \<Rightarrow> Inl ValueError))"

text \<open>
  The callers pass \<^verbatim>\<open>time_el.text\<close>, which is \<^verbatim>\<open>None\<close> for an empty element; then
  \<^verbatim>\<open>t.replace\<close> raises \<^verbatim>\<open>AttributeError\<close>.
\<close>

definition parse_time_text :: "pylib \<Rightarrow> string option \<Rightarrow> py_error + datetime" where
  "parse_time_text L txt =
     (case txt of None \<Rightarrow> Inl AttributeError | Some s \<Rightarrow> parse_time L s)"

section \<open>Great-circle distance\<close>

definition radians :: "real \<Rightarrow> real" where
  "radians x = x * pi / 180"

text \<open>The argument of the square root in \<^verbatim>\<open>haversine\<close>, line 45, on the four angles in degrees.\<close>

definition haversine_a :: "real \<Rightarrow> real \<Rightarrow> real \<Rightarrow> real \<Rightarrow> real" where
  "haversine_a lon1 lat1 lon2 lat2 =
     (let dlon = radians lon2 - radians lon1;
          dlat = radians lat2 - radians lat1
      in (sin (dlat / 2))\<^sup>2 + cos (radians lat1) * cos (radians lat2) * (sin (dlon / 2))\<^sup>2)"

definition haversine :: "real \<Rightarrow> real \<Rightarrow> real \<Rightarrow> real \<Rightarrow> real" where
  "haversine lon1 lat1 lon2 lat2 =
     (let a = haversine_a lon1 lat1 lon2 lat2;
          c = 2 * arcsin (sqrt a);
          r = 6371000
      in c * r)"

section \<open>Heart-rate samples\<close>

text \<open>
  What the code reads of one \<^verbatim>\<open>trkpt\<close> element: the two attributes (\<^verbatim>\<open>trkpt.get\<close>
  gives \<^verbatim>\<open>None\<close> for a missing one) and the three children it looks up, each absent or
  present with its text (itself \<^verbatim>\<open>None\<close> when the element is empty).
\<close>

record trkpt =
  attr_lat :: "string option"
  attr_lon :: "string option"
  ele_el :: "string option option"
  time_el :: "string option option"
  hr_el :: "string option option"

text \<open>
  A file is absent, or not well-formed XML (\<^verbatim>\<open>ET.parse\<close> raises), or a document, of
  which the code sees the \<^verbatim>\<open>trkpt\<close> elements in document order.
\<close>

datatype xml_file = Malformed | Document "trkpt list"

type_synonym filesystem = "string \<Rightarrow> xml_file option"

text \<open>The loop of \<^verbatim>\<open>load_hr_data\<close>, lines 62 to 73; \<open>pts\<close> is the list being appended to.\<close>

fun hr_loop :: "pylib \<Rightarrow> trkpt list \<Rightarrow> (datetime \<times> int) list \<Rightarrow> py_error + (datetime \<times> int) list" where
  "hr_loop L [] pts = Inr pts"
| "hr_loop L (e # es) pts =
     (case time_el e of
        None \<Rightarrow> hr_loop L es pts
      | Some txt \<Rightarrow>
          (case parse_time_text L txt of
             Inl err \<Rightarrow> Inl err
           | Inr t \<Rightarrow>
               (case hr_el e of
                  None \<Rightarrow> hr_loop L es pts
                | Some htxt \<Rightarrow>
                    (case to_int L htxt of
                       Inl err \<Rightarrow> Inl err
                     | Inr h \<Rightarrow>
                         if h \<noteq> 0 then hr_loop L es (pts @ [(t, h)])
                         else hr_loop L es pts))))"

definition load_hr_data :: "pylib \<Rightarrow> filesystem \<Rightarrow> string \<Rightarrow> py_error + (datetime \<times> int) list" where
  "load_hr_data L fs path =
     (case fs path of
        None \<Rightarrow> Inr []
      | Some Malformed \<Rightarrow> Inl XMLParseError
      | Some (Document es) \<Rightarrow> hr_loop L es [])"

text \<open>\<^verbatim>\<open>abs((target_time - t).total_seconds())\<close>, line 89.\<close>

definition abs_diff :: "datetime \<Rightarrow> datetime \<Rightarrow> py_error + real" where
  "abs_diff target_time t =
     (case dt_sub target_time t of
        Inl err \<Rightarrow> Inl err
      | Inr us \<Rightarrow> Inr \<bar>total_seconds us\<bar>)"

text \<open>
  The loop of \<^verbatim>\<open>get_closest_hr\<close>, lines 88 to 95, with its two variables \<^verbatim>\<open>min_diff\<close>
  and \<^verbatim>\<open>best_hr\<close>; the \<^verbatim>\<open>break\<close> returns the current best.
\<close>

fun closest_loop :: "datetime \<Rightarrow> (datetime \<times> int) list \<Rightarrow> real \<Rightarrow> int option \<Rightarrow> py_error + int option" where
  "closest_loop target_time [] min_diff best_hr = Inr best_hr"
| "closest_loop target_time ((t, h) # rest) min_diff best_hr =
     (case abs_diff target_time t of
        Inl err \<Rightarrow> Inl err
      | Inr diff \<Rightarrow>
          (let min_diff' = (if diff < min_diff then diff else min_diff);
               best_hr' = (if diff < min_diff then Some h else best_hr)
           in if diff < 1 / 2 then Inr best_hr'
              else closest_loop target_time rest min_diff' best_hr'))"

definition get_closest_hr :: "datetime \<Rightarrow> (datetime \<times> int) list \<Rightarrow> py_error + int option" where
  "get_closest_hr target_time hr_data =
     (if hr_data = [] then Inr None else closest_loop target_time hr_data 5 None)"

section \<open>Building the merged series\<close>

text \<open>
  The dictionary appended to \<^verbatim>\<open>track_points\<close> at lines 204 to 208, one field per key.
\<close>

record track_point =
  lat :: real
  lon :: real
  ele :: real
  time :: datetime
  raw_dist :: real
  hr :: "int option"

text \<open>
  The loop of \<^verbatim>\<open>main\<close>, lines 183 to 209. Its state is the cursor \<^verbatim>\<open>prev_lat\<close>,
  \<^verbatim>\<open>prev_lon\<close> (both \<^verbatim>\<open>None\<close>, or both set), \<^verbatim>\<open>raw_accumulated_dist\<close> and the list
  \<^verbatim>\<open>track_points\<close>. The counter \<^verbatim>\<open>found_points\<close> is written and never read, and is
  left out. The attributes and the elevation are converted before the test for a missing
  time, so their errors arise for a point that would have been skipped too.
\<close>

fun gps_loop ::
  "pylib \<Rightarrow> (datetime \<times> int) list \<Rightarrow> trkpt list \<Rightarrow> (real \<times> real) option \<Rightarrow> real \<Rightarrow>
   track_point list \<Rightarrow> py_error + track_point list" where
  "gps_loop L hr_data [] prev raw_accumulated_dist track_points = Inr track_points"
| "gps_loop L hr_data (e # es) prev raw_accumulated_dist track_points =
     (case to_float L (attr_lat e) of
        Inl err \<Rightarrow> Inl err
      | Inr la \<Rightarrow>
     (case to_float L (attr_lon e) of
        Inl err \<Rightarrow> Inl err
      | Inr lo \<Rightarrow>
     (case (case ele_el e of None \<Rightarrow> Inr 0 | Some txt \<Rightarrow> to_float L txt) of
        Inl err \<Rightarrow> Inl err
      | Inr el \<Rightarrow>
     (case time_el e of
        None \<Rightarrow> gps_loop L hr_data es prev raw_accumulated_dist track_points
      | Some txt \<Rightarrow>
     (case parse_time_text L txt of
        Inl err \<Rightarrow> Inl err
      | Inr t \<Rightarrow>
          (let step_dist = (case prev of
                              None \<Rightarrow> 0
                            | Some (prev_lat, prev_lon) \<Rightarrow> haversine prev_lon prev_lat lo la);
               acc = raw_accumulated_dist + step_dist
           in case get_closest_hr t hr_data of
                Inl err \<Rightarrow> Inl err
              | Inr h \<Rightarrow>
                  gps_loop L hr_data es (Some (la, lo)) acc
                    (track_points @
                     [\<lparr>lat = la, lon = lo, ele = el, time = t, raw_dist = acc, hr = h\<rparr>])))))))"

definition build_track :: "pylib \<Rightarrow> (datetime \<times> int) list \<Rightarrow> trkpt list \<Rightarrow> py_error + track_point list" where
  "build_track L hr_data es = gps_loop L hr_data es None 0 []"

section \<open>Rescaling\<close>

text \<open>A point after line 224: the same dictionary with the key \<^verbatim>\<open>dist_calculated\<close> added.\<close>

record corrected_point = track_point +
  dist_calculated :: real

text \<open>Line 220, in real arithmetic.\<close>

definition correction_ratio :: "real \<Rightarrow> real \<Rightarrow> real" where
  "correction_ratio target_meters total_gps_dist =
     (if total_gps_dist > 0 then target_meters / total_gps_dist else 1)"

text \<open>Lines 223 and 224.\<close>

definition set_dist_calculated :: "real \<Rightarrow> track_point \<Rightarrow> corrected_point" where
  "set_dist_calculated ratio p =
     \<lparr>lat = lat p, lon = lon p, ele = ele p, time = time p, raw_dist = raw_dist p,
      hr = hr p, dist_calculated = raw_dist p * ratio\<rparr>"

definition rescale :: "real \<Rightarrow> track_point list \<Rightarrow> corrected_point list" where
  "rescale target_meters track_points =
     map (set_dist_calculated (correction_ratio target_meters (raw_dist (last track_points))))
       track_points"

section \<open>The output document\<close>

text \<open>
  The document \<^verbatim>\<open>create_tcx\<close> writes is a fixed template; the model keeps the values
  interpolated into it, before formatting. A \<^verbatim>\<open>Trackpoint\<close> has a \<^verbatim>\<open>HeartRateBpm\<close>
  element exactly when \<open>heart_rate_bpm\<close> is not \<open>None\<close>, and then that is its \<^verbatim>\<open>Value\<close>.
\<close>

record tcx_trackpoint =
  tp_time :: datetime
  latitude_degrees :: real
  longitude_degrees :: real
  altitude_meters :: real
  tp_distance_meters :: real
  heart_rate_bpm :: "int option"

record tcx =
  activity_id :: datetime
  lap_start_time :: datetime
  total_time_seconds :: real
  distance_meters :: real
  track :: "tcx_trackpoint list"

text \<open>Lines 123 to 142; \<^verbatim>\<open>if hr:\<close> is false for \<^verbatim>\<open>None\<close> and for \<^verbatim>\<open>0\<close>.\<close>

definition write_trackpoint :: "corrected_point \<Rightarrow> tcx_trackpoint" where
  "write_trackpoint p =
     \<lparr>tp_time = time p, latitude_degrees = lat p, longitude_degrees = lon p,
      altitude_meters = ele p, tp_distance_meters = dist_calculated p,
      heart_rate_bpm = (case hr p of None \<Rightarrow> None | Some h \<Rightarrow> if h \<noteq> 0 then Some h else None)\<rparr>"

definition create_tcx :: "corrected_point list \<Rightarrow> datetime \<Rightarrow> real \<Rightarrow> real \<Rightarrow> tcx" where
  "create_tcx points start_time total_duration_sec total_dist_meters =
     \<lparr>activity_id = start_time, lap_start_time = start_time,
      total_time_seconds = total_duration_sec, distance_meters = total_dist_meters,
      track = map write_trackpoint points\<rparr>"

section \<open>The run\<close>

text \<open>
  How a run of \<^verbatim>\<open>main\<close> ends: with one of its four diagnostics and no output file, with
  an uncaught exception and no output file, or with the output file written.
\<close>

datatype outcome =
    MissingArgument
  | InvalidNumber
  | MissingInputFile
  | NoTrackPoints
  | Crashed py_error
  | Created tcx

definition file_gps :: string where "file_gps = ''GPS.gpx''"
definition file_hr :: string where "file_hr = ''HR.gpx''"

text \<open>Lines 215 to 231, reached with a non-empty list of points.\<close>

definition finish :: "real \<Rightarrow> track_point list \<Rightarrow> outcome" where
  "finish target_km track_points =
     (let target_meters = target_km * 1000;
          points = rescale target_meters track_points;
          start_t = time (hd track_points);
          end_t = time (last track_points)
      in case dt_sub end_t start_t of
           Inl err \<Rightarrow> Crashed err
         | Inr us \<Rightarrow> Created (create_tcx points start_t (total_seconds us) target_meters))"

definition main :: "pylib \<Rightarrow> filesystem \<Rightarrow> string list \<Rightarrow> outcome" where
  "main L fs argv =
     (if length argv < 2 then MissingArgument
      else
       (case py_float L (str_replace CHR '','' ''.'' (argv ! 1)) of
          None \<Rightarrow> InvalidNumber
        | Some target_km \<Rightarrow>
            (if fs file_gps = None \<or> fs file_hr = None then MissingInputFile
             else
              (case load_hr_data L fs file_hr of
                 Inl err \<Rightarrow> Crashed err
               | Inr hr_data \<Rightarrow>
                   (case fs file_gps of
                      None \<Rightarrow> Crashed FileNotFoundError
                    | Some Malformed \<Rightarrow> Crashed XMLParseError
                    | Some (Document es) \<Rightarrow>
                        (case build_track L hr_data es of
                           Inl err \<Rightarrow> Crashed err
                         | Inr track_points \<Rightarrow>
                             (if track_points = [] then NoTrackPoints
                              else finish target_km track_points)))))))"

section \<open>Rescaling in double precision\<close>

text \<open>
  The definitions above compute in the reals. Two properties of rescaling depend on how
  Python's floats round, so lines 219 to 224 are modelled a second time with the
  arithmetic of IEEE binary64: 53 significant bits, round to nearest, ties to even. The
  model covers results in the normal range (no overflow to infinity, no subnormal
  numbers), which distances in meters and their ratios are.
\<close>

text \<open>Rounding to the nearest integer, a tie to the even one.\<close>

definition round_half_even :: "real \<Rightarrow> int" where
  "round_half_even x =
     (let n = \<lfloor>x\<rfloor>; r = x - of_int n
      in if r < 1 / 2 then n else if 1 / 2 < r then n + 1 else if even n then n else n + 1)"

text \<open>
  The double nearest to a real \<open>x\<close>: with \<open>2\<^sup>e \<le> \<bar>x\<bar> < 2\<^sup>e\<^sup>+\<^sup>1\<close>, the doubles around \<open>x\<close> are
  the integer multiples of \<open>2\<^sup>e\<^sup>-\<^sup>5\<^sup>2\<close>.
\<close>

definition f64_round :: "real \<Rightarrow> real" where
  "f64_round x =
     (if x = 0 then 0
      else let e = \<lfloor>log 2 \<bar>x\<bar>\<rfloor>
           in of_int (round_half_even (x * 2 powr (52 - of_int e))) * 2 powr (of_int e - 52))"

text \<open>IEEE division and multiplication: the exact result, rounded.\<close>

definition f64_div :: "real \<Rightarrow> real \<Rightarrow> real" where
  "f64_div x y = f64_round (x / y)"

definition f64_mul :: "real \<Rightarrow> real \<Rightarrow> real" where
  "f64_mul x y = f64_round (x * y)"

text \<open>Lines 220, 223 and 224 with each operation rounded as the doubles round it.\<close>

definition correction_ratio_f64 :: "real \<Rightarrow> real \<Rightarrow> real" where
  "correction_ratio_f64 target_meters total_gps_dist =
     (if total_gps_dist > 0 then f64_div target_meters total_gps_dist else 1)"

definition set_dist_calculated_f64 :: "real \<Rightarrow> track_point \<Rightarrow> corrected_point" where
  "set_dist_calculated_f64 ratio p =
     \<lparr>lat = lat p, lon = lon p, ele = ele p, time = time p, raw_dist = raw_dist p,
      hr = hr p, dist_calculated = f64_mul (raw_dist p) ratio\<rparr>"

definition rescale_f64 :: "real \<Rightarrow> track_point list \<Rightarrow> corrected_point list" where
  "rescale_f64 target_meters track_points =
     map (set_dist_calculated_f64
            (correction_ratio_f64 target_meters (raw_dist (last track_points))))
       track_points"

section \<open>Invariants of the loops\<close>

text \<open>
  What the loop of \<^verbatim>\<open>main\<close> maintains: started with cursor \<open>prev\<close> and running sum
  \<open>acc\<close>, the points it appends carry, one after the other, the running sum of the
  step distances.
\<close>

fun raw_chain :: "(real \<times> real) option \<Rightarrow> real \<Rightarrow> track_point list \<Rightarrow> bool" where
  "raw_chain prev acc [] = True"
| "raw_chain prev acc (p # ps) =
     (raw_dist p = acc + (case prev of None \<Rightarrow> 0
                          | Some (prev_lat, prev_lon) \<Rightarrow> haversine prev_lon prev_lat (lon p) (lat p))
      \<and> raw_chain (Some (lat p, lon p)) (raw_dist p) ps)"

text \<open>The heart rate of a point is the answer of \<^verbatim>\<open>get_closest_hr\<close> at its time.\<close>

definition hr_matched :: "(datetime \<times> int) list \<Rightarrow> track_point \<Rightarrow> bool" where
  "hr_matched hr_data p = (get_closest_hr (time p) hr_data = Inr (hr p))"

section \<open>Sample inputs\<close>

text \<open>
  Concrete inputs for the examples below. \<open>sample_lib\<close> answers as the Python library
  does on the few strings the examples use and rejects every other string; a fraction of
  one digit is rejected by \<^verbatim>\<open>fromisoformat\<close> before Python 3.11, which is the case the
  fallback of \<^verbatim>\<open>parse_time\<close> is written for.
\<close>

definition utc :: "int \<Rightarrow> datetime" where
  "utc us = \<lparr>wall_us = us, utcoffset_us = Some 0\<rparr>"

definition sample_lib :: pylib where
  "sample_lib =
     \<lparr>fromisoformat =
        (\<lambda>s. if s = ''2024-01-01T10:00:00+00:00'' then Some (utc 1704103200000000)
             else if s = ''2024-01-01T10:00:10+00:00'' then Some (utc 1704103210000000)
             else None),
      py_float =
        (\<lambda>s. if s = ''0'' then Some 0
             else if s = ''180'' then Some 180
             else if s = ''10'' then Some 10
             else if s = ''2.5'' then Some (5 / 2)
             else None),
      py_int =
        (\<lambda>s. if s = ''150'' then Some 150
             else if s = ''-5'' then Some (- 5)
             else if s = ''0'' then Some 0
             else None)\<rparr>"

text \<open>
  Two GPS track points on the equator, half a turn and ten seconds apart, the second with
  an elevation; heart-rate entries at the time of the first, with a plausible value, a
  negative one, zero, no value, and no time.
\<close>

definition gps_a :: trkpt where
  "gps_a = \<lparr>attr_lat = Some ''0'', attr_lon = Some ''0'', ele_el = None,
            time_el = Some (Some ''2024-01-01T10:00:00Z''), hr_el = None\<rparr>"

definition gps_b :: trkpt where
  "gps_b = \<lparr>attr_lat = Some ''0'', attr_lon = Some ''180'', ele_el = Some (Some ''2.5''),
            time_el = Some (Some ''2024-01-01T10:00:10Z''), hr_el = None\<rparr>"

definition hr_entry :: "string option option \<Rightarrow> string option option \<Rightarrow> trkpt" where
  "hr_entry tm v = \<lparr>attr_lat = None, attr_lon = None, ele_el = None, time_el = tm, hr_el = v\<rparr>"

definition sample_time :: "string option option" where
  "sample_time = Some (Some ''2024-01-01T10:00:00Z'')"

definition sample_fs :: "xml_file option \<Rightarrow> xml_file option \<Rightarrow> filesystem" where
  "sample_fs gps h = (\<lambda>path. if path = ''GPS.gpx'' then gps else if path = ''HR.gpx'' then h else None)"

definition sample_argv :: "string list" where
  "sample_argv = [''gpx_hr_merger.py'', ''10'']"

text \<open>
  The merged series of \<open>gps_a\<close> and \<open>gps_b\<close> as Python computes it in doubles: for the
  half turn \<^verbatim>\<open>a\<close> is \<^verbatim>\<open>1.0\<close>, \<^verbatim>\<open>asin(1.0)\<close> is the double nearest to \<open>pi / 2\<close>, and the
  distance is \<^verbatim>\<open>3.141592653589793 * 6371000\<close> rounded, \<^verbatim>\<open>20015086.79602057\<close>.
\<close>

definition series_f64 :: "track_point list" where
  "series_f64 =
     [\<lparr>lat = 0, lon = 0, ele = 0, time = utc 1704103200000000, raw_dist = 0, hr = None\<rparr>,
      \<lparr>lat = 0, lon = 180, ele = 5 / 2, time = utc 1704103210000000,
       raw_dist = 5372758950969361 / 268435456, hr = None\<rparr>]"

text \<open>
  A second library for one example: it answers as Python 3.11 does on the three strings
  that example uses, where a time ending in a colon is rejected and the same text followed
  by an offset is accepted.
\<close>

definition py311_lib :: pylib where
  "py311_lib =
     \<lparr>fromisoformat =
        (\<lambda>s. if s = ''2024-01-01T10:00:+00:00'' then Some (utc 1704103200000000)
             else if s = ''2024-01-01T10:00:00+00:00'' then Some (utc 1704103200000000)
             else None),
      py_float = (\<lambda>s. None),
      py_int = (\<lambda>s. None)\<rparr>"

section \<open>Time parsing as the specification words it\<close>

text \<open>
  For comparison with \<open>parse_time\<close>: the specification's wording of time parsing, read
  literally. A trailing \<^verbatim>\<open>Z\<close> becomes \<^verbatim>\<open>+00:00\<close>; if the generic parse fails, the text
  is cut at the first dot, \<^verbatim>\<open>+00:00\<close> is appended and the parse is retried; the error is
  raised when both attempts fail.
\<close>

definition normalize_trailing_Z :: "string \<Rightarrow> string" where
  "normalize_trailing_Z t =
     (if t \<noteq> [] \<and> last t = CHR ''Z'' then butlast t @ ''+00:00'' else t)"

definition parse_time_spec :: "pylib \<Rightarrow> string \<Rightarrow> py_error + datetime" where
  "parse_time_spec L t0 =
     (let t = normalize_trailing_Z t0 in
      case fromisoformat L t of
        Some d \<Rightarrow> Inr d
      | None \<Rightarrow>
          (case fromisoformat L (takeWhile (\<lambda>x. x \<noteq> CHR ''.'') t @ ''+00:00'') of
             Some d \<Rightarrow> Inr d
           | None \<Rightarrow> Inl ValueError))"

section \<open>Properties of the great-circle distance\<close>

text \<open>
  The argument of the square root is \<open>(1 - u \<bullet> v) / 2\<close> for two unit vectors, hence in
  \<open>[0, 1]\<close> for all real inputs: in exact arithmetic neither \<^verbatim>\<open>sqrt\<close> nor \<^verbatim>\<open>asin\<close>
  leaves its domain, which is why \<open>haversine\<close> has no error result.
\<close>

lemma unit_dot_bound:
  fixes sx sy cx cy c :: real
  assumes x: "sx\<^sup>2 + cx\<^sup>2 = 1" and y: "sy\<^sup>2 + cy\<^sup>2 = 1" and c: "\<bar>c\<bar> \<le> 1"
  shows "\<bar>sx * sy + cx * cy * c\<bar> \<le> 1"
proof -
  define A where "A = sx * sy"
  define B where "B = cx * cy * c"
  have s: "2 * \<bar>A\<bar> \<le> sx\<^sup>2 + sy\<^sup>2"
    using sum_squares_bound [of sx sy] sum_squares_bound [of "- sx" sy]
    by (simp add: abs_le_iff A_def)
  have "\<bar>B\<bar> = \<bar>cx * cy\<bar> * \<bar>c\<bar>" by (simp add: abs_mult B_def)
  also have "\<dots> \<le> \<bar>cx * cy\<bar> * 1" using c by (intro mult_left_mono) simp_all
  finally have cc: "\<bar>B\<bar> \<le> \<bar>cx * cy\<bar>" by simp
  have "2 * \<bar>cx * cy\<bar> \<le> cx\<^sup>2 + cy\<^sup>2"
    using sum_squares_bound [of cx cy] sum_squares_bound [of "- cx" cy]
    by (simp add: abs_le_iff)
  with cc have k: "2 * \<bar>B\<bar> \<le> cx\<^sup>2 + cy\<^sup>2" by linarith
  have "\<bar>A + B\<bar> \<le> \<bar>A\<bar> + \<bar>B\<bar>" by (rule abs_triangle_ineq)
  with s k x y have "\<bar>A + B\<bar> \<le> 1" by linarith
  then show ?thesis by (simp add: A_def B_def)
qed

lemma half_angle_form:
  fixes x y d :: real
  shows "(sin ((y - x) / 2))\<^sup>2 + cos x * cos y * (sin (d / 2))\<^sup>2 =
         (1 - (sin x * sin y + cos x * cos y * cos d)) / 2"
proof -
  have h: "(sin (w / 2))\<^sup>2 = (1 - cos w) / 2" for w :: real
    using cos_double_sin [of "w / 2"] by simp
  have "(sin ((y - x) / 2))\<^sup>2 + cos x * cos y * (sin (d / 2))\<^sup>2 =
        (1 - (cos y * cos x + sin y * sin x)) / 2 + cos x * cos y * ((1 - cos d) / 2)"
    by (simp only: h cos_diff [of y x])
  also have "\<dots> = (1 - (sin x * sin y + cos x * cos y * cos d)) / 2"
    by (simp add: field_simps)
  finally show ?thesis .
qed

lemma haversine_a_alt:
  "haversine_a lon1 lat1 lon2 lat2 =
     (1 - (sin (radians lat1) * sin (radians lat2) +
           cos (radians lat1) * cos (radians lat2) * cos (radians lon2 - radians lon1))) / 2"
  unfolding haversine_a_def Let_def by (rule half_angle_form)

lemma haversine_a_bounds: "0 \<le> haversine_a lon1 lat1 lon2 lat2 \<and> haversine_a lon1 lat1 lon2 lat2 \<le> 1"
proof -
  have "\<bar>sin (radians lat1) * sin (radians lat2) +
           cos (radians lat1) * cos (radians lat2) * cos (radians lon2 - radians lon1)\<bar> \<le> 1"
    by (rule unit_dot_bound) simp_all
  then show ?thesis unfolding haversine_a_alt by (simp add: abs_le_iff)
qed

lemma haversine_nonneg: "0 \<le> haversine lon1 lat1 lon2 lat2"
proof -
  let ?a = "haversine_a lon1 lat1 lon2 lat2"
  have "0 \<le> sqrt ?a" "sqrt ?a \<le> 1" using haversine_a_bounds [of lon1 lat1 lon2 lat2] by simp_all
  then have "0 \<le> arcsin (sqrt ?a)" by (intro arcsin_nonneg) simp
  then show ?thesis by (simp add: haversine_def Let_def)
qed

lemma haversine_same: "haversine lo la lo la = 0"
  by (simp add: haversine_def haversine_a_def Let_def)

lemma haversine_antipodal: "haversine 0 0 180 0 = 6371000 * pi"
  by (simp add: haversine_def haversine_a_def Let_def radians_def)

section \<open>The closest heart-rate sample\<close>

lemma closest_loop_early:
  "1 / 2 \<le> m \<Longrightarrow> \<forall>s\<in>set pre. \<exists>d. abs_diff target (fst s) = Inr d \<and> 1 / 2 \<le> d \<Longrightarrow>
   abs_diff target t = Inr d \<Longrightarrow> d < 1 / 2 \<Longrightarrow>
   closest_loop target (pre @ (t, h) # post) m b = Inr (Some h)"
proof (induction pre arbitrary: m b)
  case Nil
  then show ?case by simp
next
  case (Cons s pre)
  obtain t' h' where s: "s = (t', h')" by (cases s)
  from Cons.prems(2) s obtain d' where d': "abs_diff target t' = Inr d'" "1 / 2 \<le> d'" by auto
  have rest: "\<forall>s\<in>set pre. \<exists>d. abs_diff target (fst s) = Inr d \<and> 1 / 2 \<le> d"
    using Cons.prems(2) by simp
  have m': "1 / 2 \<le> (if d' < m then d' else m)" using d'(2) Cons.prems(1) by simp
  show ?case
    using Cons.IH [OF m' rest Cons.prems(3) Cons.prems(4)] d' s by (simp add: Let_def)
qed

lemma closest_loop_sound:
  "closest_loop target xs m b = Inr (Some h) \<Longrightarrow> m \<le> 5 \<Longrightarrow>
   b = Some h \<or> (\<exists>s\<in>set xs. snd s = h \<and> (\<exists>d. abs_diff target (fst s) = Inr d \<and> d < 5))"
proof (induction xs arbitrary: m b)
  case Nil
  then show ?case by simp
next
  case (Cons s xs)
  obtain t' h' where s: "s = (t', h')" by (cases s)
  show ?case
  proof (cases "abs_diff target t'")
    case (Inl e)
    then show ?thesis using Cons.prems s by simp
  next
    case (Inr d)
    show ?thesis
    proof (cases "d < 1 / 2")
      case True
      then show ?thesis using Cons.prems s Inr by (auto simp: Let_def split: if_splits)
    next
      case False
      let ?m = "if d < m then d else m" and ?b = "if d < m then Some h' else b"
      have "closest_loop target xs ?m ?b = Inr (Some h)"
        using Cons.prems(1) s Inr False by (simp add: Let_def)
      moreover have "?m \<le> 5" using Cons.prems(2) by simp
      ultimately have
        "?b = Some h \<or> (\<exists>s\<in>set xs. snd s = h \<and> (\<exists>d. abs_diff target (fst s) = Inr d \<and> d < 5))"
        by (rule Cons.IH)
      then show ?thesis using s Inr Cons.prems(2) by (auto split: if_splits)
    qed
  qed
qed

lemma closest_loop_none:
  "\<forall>s\<in>set xs. \<exists>d. abs_diff target (fst s) = Inr d \<and> 5 \<le> d \<Longrightarrow> m \<le> 5 \<Longrightarrow>
   closest_loop target xs m b = Inr b"
proof (induction xs arbitrary: m b)
  case Nil
  then show ?case by simp
next
  case (Cons s xs)
  obtain t' h' where s: "s = (t', h')" by (cases s)
  from Cons.prems(1) s obtain d' where d': "abs_diff target t' = Inr d'" "5 \<le> d'" by auto
  have rest: "\<forall>s\<in>set xs. \<exists>d. abs_diff target (fst s) = Inr d \<and> 5 \<le> d"
    using Cons.prems(1) by simp
  show ?case using Cons.IH [OF rest Cons.prems(2)] d' s Cons.prems(2) by (simp add: Let_def)
qed

lemma get_closest_hr_sound:
  "get_closest_hr target hr_data = Inr (Some h) \<Longrightarrow>
   \<exists>s\<in>set hr_data. snd s = h \<and> (\<exists>d. abs_diff target (fst s) = Inr d \<and> d < 5)"
  using closest_loop_sound [of target hr_data 5 None h]
  by (simp add: get_closest_hr_def split: if_splits)

lemma abs_diff_utc: "abs_diff (utc a) (utc b) = Inr \<bar>real_of_int (a - b) / 1000000\<bar>"
  by (simp add: abs_diff_def dt_sub_def utc_def total_seconds_def)

text \<open>
  C3: the scan returns the first sample in stored order whose distance to the target is
  under half a second, whatever follows it. Here every earlier sample is compared
  without error and is at least half a second away. For samples at 4.9 s, 0.3 s and
  0.1 s, in that order, the sample at 0.3 s is returned.
\<close>

theorem get_closest_hr_early_exit:
  assumes "\<forall>s\<in>set pre. \<exists>d. abs_diff target (fst s) = Inr d \<and> 1 / 2 \<le> d"
    and "abs_diff target t = Inr d" and "d < 1 / 2"
  shows "get_closest_hr target (pre @ (t, h) # post) = Inr (Some h)"
  using closest_loop_early [of 5 pre target t d h post None] assms
  by (simp add: get_closest_hr_def)

theorem get_closest_hr_early_exit_witness:
  "abs_diff (utc 10000000) (utc 5100000) = Inr (49 / 10) \<and>
   abs_diff (utc 10000000) (utc 10300000) = Inr (3 / 10) \<and>
   abs_diff (utc 10000000) (utc 10100000) = Inr (1 / 10) \<and>
   get_closest_hr (utc 10000000)
     ([(utc 5100000, 100)] @ (utc 10300000, 120) # [(utc 10100000, 140)]) = Inr (Some 120)"
proof -
  have first: "abs_diff (utc 10000000) (utc 5100000) = Inr (49 / 10)"
    by (simp add: abs_diff_utc)
  have far: "\<forall>s\<in>set [(utc 5100000, 100::int)].
               \<exists>d. abs_diff (utc 10000000) (fst s) = Inr d \<and> 1 / 2 \<le> d"
  proof (intro ballI)
    fix s :: "datetime \<times> int"
    assume "s \<in> set [(utc 5100000, 100)]"
    then have "fst s = utc 5100000" by simp
    with first have "abs_diff (utc 10000000) (fst s) = Inr (49 / 10) \<and> 1 / 2 \<le> (49 / 10 :: real)"
      by simp
    then show "\<exists>d. abs_diff (utc 10000000) (fst s) = Inr d \<and> 1 / 2 \<le> d" by blast
  qed
  have near: "abs_diff (utc 10000000) (utc 10300000) = Inr (3 / 10)"
    by (simp add: abs_diff_utc)
  have "get_closest_hr (utc 10000000)
          ([(utc 5100000, 100)] @ (utc 10300000, 120) # [(utc 10100000, 140)]) = Inr (Some 120)"
    by (rule get_closest_hr_early_exit [OF far near]) simp
  then show ?thesis by (simp add: abs_diff_utc)
qed

section \<open>The merged series\<close>

lemma gps_loop_appends:
  "gps_loop L hr_data es prev acc tps = Inr out \<Longrightarrow>
   \<exists>new. out = tps @ new \<and> raw_chain prev acc new \<and> list_all (hr_matched hr_data) new"
proof (induction es arbitrary: prev acc tps)
  case Nil
  then show ?case by simp
next
  case (Cons e es)
  from Cons.prems obtain la lo el where
    la: "to_float L (attr_lat e) = Inr la" and lo: "to_float L (attr_lon e) = Inr lo"
    and el: "(case ele_el e of None \<Rightarrow> Inr 0 | Some txt \<Rightarrow> to_float L txt) = Inr el"
    by (auto split: sum.splits)
  show ?case
  proof (cases "time_el e")
    case None
    then have "gps_loop L hr_data es prev acc tps = Inr out"
      using Cons.prems la lo el by simp
    then show ?thesis by (rule Cons.IH)
  next
    case (Some tx)
    from Cons.prems Some la lo el obtain t h where
      t: "parse_time_text L tx = Inr t" and h: "get_closest_hr t hr_data = Inr h"
      by (auto simp: Let_def split: sum.splits)
    let ?acc = "acc + (case prev of None \<Rightarrow> 0
                       | Some (prev_lat, prev_lon) \<Rightarrow> haversine prev_lon prev_lat lo la)"
    let ?p = "\<lparr>lat = la, lon = lo, ele = el, time = t, raw_dist = ?acc, hr = h\<rparr>"
    have "gps_loop L hr_data es (Some (la, lo)) ?acc (tps @ [?p]) = Inr out"
      using Cons.prems Some la lo el t h by (simp add: Let_def)
    from Cons.IH [OF this] obtain new where
      new: "out = (tps @ [?p]) @ new" "raw_chain (Some (la, lo)) ?acc new"
        "list_all (hr_matched hr_data) new" by blast
    have "out = tps @ (?p # new)" using new(1) by simp
    moreover have "raw_chain prev acc (?p # new)" using new(2) by (cases prev) auto
    moreover have "list_all (hr_matched hr_data) (?p # new)"
      using new(3) h by (simp add: hr_matched_def)
    ultimately show ?thesis by blast
  qed
qed

lemma raw_chain_lower: "raw_chain prev acc ps \<Longrightarrow> p \<in> set ps \<Longrightarrow> acc \<le> raw_dist p"
proof (induction ps arbitrary: prev acc)
  case Nil
  then show ?case by simp
next
  case (Cons q ps)
  have q: "acc \<le> raw_dist q"
    using Cons.prems(1) haversine_nonneg by (auto split: option.splits)
  show ?case
  proof (cases "p = q")
    case True
    then show ?thesis using q by simp
  next
    case False
    then have "p \<in> set ps" using Cons.prems(2) by simp
    moreover have "raw_chain (Some (lat q, lon q)) (raw_dist q) ps"
      using Cons.prems(1) unfolding raw_chain.simps by (rule conjunct2)
    ultimately have "raw_dist q \<le> raw_dist p" by (rule Cons.IH [rotated])
    then show ?thesis using q by linarith
  qed
qed

lemma raw_chain_sorted: "raw_chain prev acc ps \<Longrightarrow> sorted (map raw_dist ps)"
proof (induction ps arbitrary: prev acc)
  case Nil
  then show ?case by simp
next
  case (Cons q ps)
  then have c: "raw_chain (Some (lat q, lon q)) (raw_dist q) ps"
    unfolding raw_chain.simps by (elim conjE)
  then have "sorted (map raw_dist ps)" by (rule Cons.IH)
  moreover have "\<forall>p\<in>set ps. raw_dist q \<le> raw_dist p" using raw_chain_lower [OF c] by blast
  ultimately show ?case by simp
qed

lemma raw_chain_step:
  "raw_chain prev acc ps \<Longrightarrow> Suc i < length ps \<Longrightarrow>
   raw_dist (ps ! Suc i) =
     raw_dist (ps ! i) + haversine (lon (ps ! i)) (lat (ps ! i)) (lon (ps ! Suc i)) (lat (ps ! Suc i))"
proof (induction ps arbitrary: prev acc i)
  case Nil
  then show ?case by simp
next
  case (Cons q ps)
  then have c: "raw_chain (Some (lat q, lon q)) (raw_dist q) ps"
    unfolding raw_chain.simps by (elim conjE)
  show ?case
  proof (cases i)
    case 0
    then obtain r rs where ps: "ps = r # rs" using Cons.prems(2) by (cases ps) auto
    then show ?thesis using c 0 by simp
  next
    case (Suc j)
    then have "Suc j < length ps" using Cons.prems(2) by simp
    from Cons.IH [OF c this] show ?thesis using Suc by simp
  qed
qed

section \<open>The sample inputs, evaluated\<close>

lemma parse_t0: "parse_time sample_lib ''2024-01-01T10:00:00Z'' = Inr (utc 1704103200000000)"
  by (simp add: parse_time_def str_replace_def sample_lib_def)

lemma parse_t10: "parse_time sample_lib ''2024-01-01T10:00:10Z'' = Inr (utc 1704103210000000)"
  by (simp add: parse_time_def str_replace_def sample_lib_def)

lemma float_samples:
  "to_float sample_lib (Some ''0'') = Inr 0"
  "to_float sample_lib (Some ''180'') = Inr 180"
  "to_float sample_lib (Some ''2.5'') = Inr (5 / 2)"
  by (simp_all add: to_float_def sample_lib_def)

lemma closest_3s:
  "get_closest_hr (utc 1704103200000000) [(utc 1704103203000000, 150)] = Inr (Some 150)"
  by (simp add: get_closest_hr_def abs_diff_utc)

lemma build_one:
  "build_track sample_lib [(utc 1704103203000000, 150)] [gps_a] =
     Inr [\<lparr>lat = 0, lon = 0, ele = 0, time = utc 1704103200000000, raw_dist = 0, hr = Some 150\<rparr>]"
  by (simp add: build_track_def gps_a_def float_samples parse_time_text_def parse_t0 closest_3s)

lemma build_two:
  "build_track sample_lib [] [gps_a, gps_b] =
     Inr [\<lparr>lat = 0, lon = 0, ele = 0, time = utc 1704103200000000, raw_dist = 0, hr = None\<rparr>,
          \<lparr>lat = 0, lon = 180, ele = 5 / 2, time = utc 1704103210000000,
           raw_dist = 6371000 * pi, hr = None\<rparr>]"
  by (simp add: build_track_def gps_a_def gps_b_def float_samples parse_time_text_def parse_t0
      parse_t10 get_closest_hr_def haversine_antipodal)

section \<open>Claims about the merged series\<close>

lemma build_track_chain:
  "build_track L hr_data es = Inr tps \<Longrightarrow> raw_chain None 0 tps \<and> list_all (hr_matched hr_data) tps"
  using gps_loop_appends [of L hr_data es None 0 "[]" tps] by (auto simp: build_track_def)

text \<open>
  C4: a heart rate returned by the lookup is the value of a sample compared without
  error and strictly less than 5 seconds from the target; the lookup returns nothing on
  an empty list, and nothing when every sample is 5 seconds or more away. Hence the heart
  rate attached to a point of the merged series is always that of a sample less than 5
  seconds from the point: a sample further away from every point is attached to none.
\<close>

theorem get_closest_hr_tolerance:
  "get_closest_hr target [] = Inr None \<and>
   (\<forall>h. get_closest_hr target hr_data = Inr (Some h) \<longrightarrow>
      (\<exists>s\<in>set hr_data. snd s = h \<and> (\<exists>d. abs_diff target (fst s) = Inr d \<and> d < 5))) \<and>
   ((\<forall>s\<in>set hr_data. \<exists>d. abs_diff target (fst s) = Inr d \<and> 5 \<le> d) \<longrightarrow>
      get_closest_hr target hr_data = Inr None) \<and>
   (\<forall>tps p h. build_track L hr_data es = Inr tps \<longrightarrow> p \<in> set tps \<longrightarrow> hr p = Some h \<longrightarrow>
      (\<exists>s\<in>set hr_data. snd s = h \<and> (\<exists>d. abs_diff (time p) (fst s) = Inr d \<and> d < 5)))"
proof (intro conjI allI impI)
  show "get_closest_hr target [] = Inr None" by (simp add: get_closest_hr_def)
next
  fix h assume "get_closest_hr target hr_data = Inr (Some h)"
  then show "\<exists>s\<in>set hr_data. snd s = h \<and> (\<exists>d. abs_diff target (fst s) = Inr d \<and> d < 5)"
    by (rule get_closest_hr_sound)
next
  assume "\<forall>s\<in>set hr_data. \<exists>d. abs_diff target (fst s) = Inr d \<and> 5 \<le> d"
  then have "closest_loop target hr_data 5 None = Inr None"
    by (rule closest_loop_none) simp
  then show "get_closest_hr target hr_data = Inr None" by (simp add: get_closest_hr_def)
next
  fix tps p h
  assume b: "build_track L hr_data es = Inr tps" and p: "p \<in> set tps" and h: "hr p = Some h"
  from build_track_chain [OF b] p have "hr_matched hr_data p" by (simp add: list_all_iff)
  with h have "get_closest_hr (time p) hr_data = Inr (Some h)" by (simp add: hr_matched_def)
  then show "\<exists>s\<in>set hr_data. snd s = h \<and> (\<exists>d. abs_diff (time p) (fst s) = Inr d \<and> d < 5)"
    by (rule get_closest_hr_sound)
qed

theorem get_closest_hr_tolerance_witness:
  "get_closest_hr (utc 1704103200000000) [(utc 1704103203000000, 150)] = Inr (Some 150) \<and>
   abs_diff (utc 1704103200000000) (utc 1704103203000000) = Inr 3 \<and>
   abs_diff (utc 1704103200000000) (utc 1704103209000000) = Inr 9 \<and>
   get_closest_hr (utc 1704103200000000) [(utc 1704103209000000, 150)] = Inr None \<and>
   build_track sample_lib [(utc 1704103203000000, 150)] [gps_a] =
     Inr [\<lparr>lat = 0, lon = 0, ele = 0, time = utc 1704103200000000, raw_dist = 0, hr = Some 150\<rparr>] \<and>
   (\<exists>s\<in>set [(utc 1704103203000000, 150::int)]. snd s = 150 \<and>
      (\<exists>d. abs_diff (utc 1704103200000000) (fst s) = Inr d \<and> d < 5))"
proof -
  let ?T = "utc 1704103200000000"
  let ?p = "\<lparr>lat = 0, lon = 0, ele = 0, time = ?T, raw_dist = 0, hr = Some 150\<rparr>"
  note far_inst = get_closest_hr_tolerance [of ?T "[(utc 1704103209000000, 150)]" sample_lib "[]"]
  note near_inst = get_closest_hr_tolerance [of ?T "[(utc 1704103203000000, 150)]" sample_lib "[gps_a]"]
  have d9: "abs_diff ?T (utc 1704103209000000) = Inr 9" by (simp add: abs_diff_utc)
  have d3: "abs_diff ?T (utc 1704103203000000) = Inr 3" by (simp add: abs_diff_utc)
  have far: "\<forall>s\<in>set [(utc 1704103209000000, 150::int)]. \<exists>d. abs_diff ?T (fst s) = Inr d \<and> 5 \<le> d"
    by (simp add: d9)
  have none: "get_closest_hr ?T [(utc 1704103209000000, 150)] = Inr None"
    by (rule far_inst [THEN conjunct2, THEN conjunct2, THEN conjunct1, rule_format])
      (use far in blast)
  note attached = near_inst [THEN conjunct2, THEN conjunct2, THEN conjunct2, rule_format]
  have "\<exists>s\<in>set [(utc 1704103203000000, 150::int)]. snd s = 150 \<and>
      (\<exists>d. abs_diff (time ?p) (fst s) = Inr d \<and> d < 5)"
    by (rule attached [OF build_one]) simp_all
  then have "\<exists>s\<in>set [(utc 1704103203000000, 150::int)]. snd s = 150 \<and>
      (\<exists>d. abs_diff ?T (fst s) = Inr d \<and> d < 5)" by simp
  with none d9 d3 closest_3s build_one show ?thesis by blast
qed

text \<open>
  C5: in the merged series built from any GPS input, the first point has raw cumulative
  distance 0 (its step distance is 0), every later point has the raw cumulative distance
  of its predecessor plus the haversine distance between the two positions, and the raw
  cumulative distances are non-decreasing along the series.
\<close>

theorem raw_distance_running_sum:
  assumes "build_track L hr_data es = Inr tps"
  shows "(tps \<noteq> [] \<longrightarrow> raw_dist (hd tps) = 0) \<and>
         (\<forall>i. Suc i < length tps \<longrightarrow>
            raw_dist (tps ! Suc i) =
              raw_dist (tps ! i) +
              haversine (lon (tps ! i)) (lat (tps ! i)) (lon (tps ! Suc i)) (lat (tps ! Suc i))) \<and>
         sorted (map raw_dist tps)"
proof -
  from build_track_chain [OF assms] have c: "raw_chain None 0 tps" by simp
  have "tps \<noteq> [] \<longrightarrow> raw_dist (hd tps) = 0" using c by (cases tps) auto
  moreover have "\<forall>i. Suc i < length tps \<longrightarrow>
            raw_dist (tps ! Suc i) =
              raw_dist (tps ! i) +
              haversine (lon (tps ! i)) (lat (tps ! i)) (lon (tps ! Suc i)) (lat (tps ! Suc i))"
    using raw_chain_step [OF c] by blast
  moreover have "sorted (map raw_dist tps)" using c by (rule raw_chain_sorted)
  ultimately show ?thesis by blast
qed

theorem raw_distance_running_sum_witness:
  "build_track sample_lib [] [gps_a, gps_b] =
     Inr [\<lparr>lat = 0, lon = 0, ele = 0, time = utc 1704103200000000, raw_dist = 0, hr = None\<rparr>,
          \<lparr>lat = 0, lon = 180, ele = 5 / 2, time = utc 1704103210000000,
           raw_dist = 6371000 * pi, hr = None\<rparr>] \<and>
   haversine 0 0 180 0 = 6371000 * pi \<and>
   sorted [0, 6371000 * pi]"
  using raw_distance_running_sum [OF build_two] build_two haversine_antipodal by simp

section \<open>Claims about rescaling\<close>

lemma sorted_le_last:
  fixes xs :: "real list"
  shows "sorted xs \<Longrightarrow> x \<in> set xs \<Longrightarrow> x \<le> last xs"
  by (induction xs) auto

lemma build_track_bounds:
  assumes "build_track L hr_data es = Inr tps" and "p \<in> set tps"
  shows "0 \<le> raw_dist p \<and> raw_dist p \<le> raw_dist (last tps)"
proof -
  from build_track_chain [OF assms(1)] have c: "raw_chain None 0 tps" by simp
  have ne: "tps \<noteq> []" using assms(2) by auto
  have "raw_dist p \<in> set (map raw_dist tps)" using assms(2) by simp
  with raw_chain_sorted [OF c] have "raw_dist p \<le> last (map raw_dist tps)" by (rule sorted_le_last)
  then have "raw_dist p \<le> raw_dist (last tps)" using ne by (simp add: last_map)
  with raw_chain_lower [OF c assms(2)] show ?thesis by simp
qed

lemma build_track_total_nonneg:
  "build_track L hr_data es = Inr tps \<Longrightarrow> tps \<noteq> [] \<Longrightarrow> 0 \<le> raw_dist (last tps)"
  using build_track_bounds [of L hr_data es tps "last tps"] by simp

lemma rescale_nth:
  "i < length tps \<Longrightarrow>
   rescale target tps ! i =
     set_dist_calculated (correction_ratio target (raw_dist (last tps))) (tps ! i)"
  by (simp add: rescale_def)

text \<open>
  C6: for a non-empty merged series and any target distance, the ratio is the target
  divided by the raw total (the raw cumulative distance of the last point), and 1 when
  the raw total is 0; the rescaled series has the same length, each of its points has
  corrected distance equal to its raw cumulative distance times the ratio, and every
  other field is that of the original point.
\<close>

theorem rescale_contract:
  assumes "build_track L hr_data es = Inr tps" and "tps \<noteq> []"
  shows "correction_ratio target (raw_dist (last tps)) =
           (if raw_dist (last tps) = 0 then 1 else target / raw_dist (last tps)) \<and>
         length (rescale target tps) = length tps \<and>
         (\<forall>i<length tps.
            dist_calculated (rescale target tps ! i) =
              raw_dist (tps ! i) * correction_ratio target (raw_dist (last tps)) \<and>
            lat (rescale target tps ! i) = lat (tps ! i) \<and>
            lon (rescale target tps ! i) = lon (tps ! i) \<and>
            ele (rescale target tps ! i) = ele (tps ! i) \<and>
            time (rescale target tps ! i) = time (tps ! i) \<and>
            raw_dist (rescale target tps ! i) = raw_dist (tps ! i) \<and>
            hr (rescale target tps ! i) = hr (tps ! i))"
proof (intro conjI allI impI)
  from build_track_total_nonneg [OF assms] show
    "correction_ratio target (raw_dist (last tps)) =
       (if raw_dist (last tps) = 0 then 1 else target / raw_dist (last tps))"
    by (simp add: correction_ratio_def)
qed (simp_all add: rescale_nth set_dist_calculated_def, simp add: rescale_def)

lemma rescale_two:
  "rescale 10000
     [\<lparr>lat = 0, lon = 0, ele = 0, time = utc 1704103200000000, raw_dist = 0, hr = None\<rparr>,
      \<lparr>lat = 0, lon = 180, ele = 5 / 2, time = utc 1704103210000000,
       raw_dist = 6371000 * pi, hr = None\<rparr>] =
     [\<lparr>lat = 0, lon = 0, ele = 0, time = utc 1704103200000000, raw_dist = 0, hr = None,
       dist_calculated = 0\<rparr>,
      \<lparr>lat = 0, lon = 180, ele = 5 / 2, time = utc 1704103210000000,
       raw_dist = 6371000 * pi, hr = None, dist_calculated = 10000\<rparr>]"
  by (simp add: rescale_def set_dist_calculated_def correction_ratio_def)

theorem rescale_contract_witness:
  "build_track sample_lib [] [gps_a, gps_b] =
     Inr [\<lparr>lat = 0, lon = 0, ele = 0, time = utc 1704103200000000, raw_dist = 0, hr = None\<rparr>,
          \<lparr>lat = 0, lon = 180, ele = 5 / 2, time = utc 1704103210000000,
           raw_dist = 6371000 * pi, hr = None\<rparr>] \<and>
   correction_ratio 10000 (6371000 * pi) = 10000 / (6371000 * pi) \<and>
   rescale 10000
     [\<lparr>lat = 0, lon = 0, ele = 0, time = utc 1704103200000000, raw_dist = 0, hr = None\<rparr>,
      \<lparr>lat = 0, lon = 180, ele = 5 / 2, time = utc 1704103210000000,
       raw_dist = 6371000 * pi, hr = None\<rparr>] =
     [\<lparr>lat = 0, lon = 0, ele = 0, time = utc 1704103200000000, raw_dist = 0, hr = None,
       dist_calculated = 0\<rparr>,
      \<lparr>lat = 0, lon = 180, ele = 5 / 2, time = utc 1704103210000000,
       raw_dist = 6371000 * pi, hr = None, dist_calculated = 10000\<rparr>]"
proof -
  have "correction_ratio 10000 (6371000 * pi) = 10000 / (6371000 * pi)"
    using rescale_contract [OF build_two, of 10000] by simp
  with build_two rescale_two show ?thesis by simp
qed

section \<open>Double-precision arithmetic, evaluated\<close>

lemma round_half_even_near:
  assumes "\<bar>x - of_int m\<bar> < 1 / 2"
  shows "round_half_even x = m"
proof (cases "of_int m \<le> x")
  case True
  have "\<lfloor>x\<rfloor> = m" unfolding floor_eq_iff using assms True by linarith
  with assms True show ?thesis by (simp add: round_half_even_def Let_def)
next
  case False
  have f: "\<lfloor>x\<rfloor> = m - 1" unfolding floor_eq_iff using assms False by simp
  have "1 / 2 < x - of_int (m - 1)" using assms False by simp
  with f show ?thesis by (simp add: round_half_even_def Let_def)
qed

lemma round_half_even_of_int: "round_half_even (of_int m) = m"
  using round_half_even_near [of "of_int m" m] by simp

lemma f64_round_binade:
  assumes "0 < x" and "2 powr (of_int e) \<le> x" and "x < 2 powr (of_int e + 1)"
  shows "f64_round x =
           of_int (round_half_even (x * 2 powr (52 - of_int e))) * 2 powr (of_int e - 52)"
proof -
  have "\<lfloor>log 2 x\<rfloor> = e" using assms by (simp add: floor_log_eq_powr_iff)
  with assms(1) show ?thesis by (simp add: f64_round_def Let_def)
qed

lemma f64_round_one: "f64_round 1 = 1"
  by (simp add: f64_round_def Let_def round_half_even_of_int [of "2 ^ 52", simplified]
      powr_neg_numeral)

lemma f64_round_zero: "f64_round 0 = 0"
  by (simp add: f64_round_def)

lemma f64_round_eval:
  assumes "0 < x" and "2 powr (of_int e) \<le> x" and "x < 2 powr (of_int e + 1)"
    and "\<bar>x * 2 powr (52 - of_int e) - of_int m\<bar> < 1 / 2"
  shows "f64_round x = of_int m * 2 powr (of_int e - 52)"
  using f64_round_binade [OF assms(1-3)] round_half_even_near [OF assms(4)] by simp

lemma ratio_7000:
  "f64_div 7000 (5372758950969361 / 268435456) = 3225746903621725 / 9223372036854775808"
proof -
  have "f64_round (7000 / (5372758950969361 / 268435456)) =
          of_int 6451493807243450 * 2 powr (of_int (- 12) - 52)"
    by (rule f64_round_eval) (simp_all add: powr_neg_numeral)
  then show ?thesis by (simp add: f64_div_def powr_neg_numeral)
qed

lemma corrected_7000:
  "f64_mul (5372758950969361 / 268435456) (3225746903621725 / 9223372036854775808) = 7000"
proof -
  have "f64_round (5372758950969361 / 268435456 * (3225746903621725 / 9223372036854775808)) =
          of_int 7696581394432000 * 2 powr (of_int 12 - 52)"
    by (rule f64_round_eval) (simp_all add: powr_neg_numeral)
  then show ?thesis by (simp add: f64_mul_def powr_neg_numeral)
qed

lemma ratio_21000:
  "f64_div 21000 (5372758950969361 / 268435456) = 1209655088858147 / 1152921504606846976"
proof -
  have "f64_round (21000 / (5372758950969361 / 268435456)) =
          of_int 4838620355432588 * 2 powr (of_int (- 10) - 52)"
    by (rule f64_round_eval) (simp_all add: powr_neg_numeral)
  then show ?thesis by (simp add: f64_div_def powr_neg_numeral)
qed

lemma corrected_21000:
  "f64_mul (5372758950969361 / 268435456) (1209655088858147 / 1152921504606846976) =
     5772436045824001 / 274877906944"
proof -
  have "f64_round (5372758950969361 / 268435456 * (1209655088858147 / 1152921504606846976)) =
          of_int 5772436045824001 * 2 powr (of_int 14 - 52)"
    by (rule f64_round_eval) (simp_all add: powr_neg_numeral)
  then show ?thesis by (simp add: f64_mul_def powr_neg_numeral)
qed

lemma raw_is_double:
  "f64_round (5372758950969361 / 268435456) = 5372758950969361 / 268435456"
proof -
  have "f64_round (5372758950969361 / 268435456) =
          of_int 5372758950969361 * 2 powr (of_int 24 - 52)"
    by (rule f64_round_eval) (simp_all add: powr_neg_numeral)
  then show ?thesis by (simp add: powr_neg_numeral)
qed

lemma antipodal_distance_f64:
  "f64_mul (884279719003555 / 281474976710656) 6371000 = 5372758950969361 / 268435456"
proof -
  have "f64_round (884279719003555 / 281474976710656 * 6371000) =
          of_int 5372758950969361 * 2 powr (of_int 24 - 52)"
    by (rule f64_round_eval) (simp_all add: powr_neg_numeral)
  then show ?thesis by (simp add: f64_mul_def powr_neg_numeral)
qed

lemma f64_mul_zero: "f64_mul 0 y = 0"
  by (simp add: f64_mul_def f64_round_zero)

lemma rescale_f64_series:
  "map dist_calculated (rescale_f64 T series_f64) =
     [f64_mul 0 (correction_ratio_f64 T (5372758950969361 / 268435456)),
      f64_mul (5372758950969361 / 268435456)
        (correction_ratio_f64 T (5372758950969361 / 268435456))]"
  by (simp add: rescale_f64_def series_f64_def set_dist_calculated_f64_def)

lemma correction_ratio_f64_pos:
  "correction_ratio_f64 T (5372758950969361 / 268435456) =
     f64_div T (5372758950969361 / 268435456)"
  by (simp add: correction_ratio_f64_def)

lemma rescale_f64_7000:
  "map dist_calculated (rescale_f64 7000 series_f64) = [0, 7000]"
  by (simp only: rescale_f64_series correction_ratio_f64_pos ratio_7000 corrected_7000
      f64_mul_zero)

lemma rescale_f64_21000:
  "map dist_calculated (rescale_f64 (3 * 7000) series_f64) =
     [0, 5772436045824001 / 274877906944]"
proof -
  have "(3 * 7000 :: real) = 21000" by simp
  then show ?thesis
    by (simp only: rescale_f64_series correction_ratio_f64_pos ratio_21000 corrected_21000
        f64_mul_zero)
qed

section \<open>Identity and linearity of rescaling\<close>

text \<open>
  C7, as the code has it: when the target equals the raw total the ratio is 1 and every
  corrected distance is the raw cumulative distance. This holds in real arithmetic and
  in doubles, where the raw distances are doubles. Exact linearity in the target is not
  a property of the code: the corrected distance is the rounded product of the raw
  distance and the rounded quotient, and the roundings of two targets differ.
\<close>

theorem rescale_identity:
  "(target = raw_dist (last tps) \<longrightarrow>
      correction_ratio target (raw_dist (last tps)) = 1 \<and>
      map dist_calculated (rescale target tps) = map raw_dist tps) \<and>
   (target = raw_dist (last tps) \<longrightarrow> (\<forall>p\<in>set tps. f64_round (raw_dist p) = raw_dist p) \<longrightarrow>
      correction_ratio_f64 target (raw_dist (last tps)) = 1 \<and>
      map dist_calculated (rescale_f64 target tps) = map raw_dist tps)"
proof (intro conjI impI)
  assume "target = raw_dist (last tps)"
  then show r: "correction_ratio target (raw_dist (last tps)) = 1"
    by (simp add: correction_ratio_def)
  then show "map dist_calculated (rescale target tps) = map raw_dist tps"
    by (simp add: rescale_def set_dist_calculated_def comp_def)
next
  assume "target = raw_dist (last tps)"
  then show r: "correction_ratio_f64 target (raw_dist (last tps)) = 1"
    by (simp add: correction_ratio_f64_def f64_div_def f64_round_one)
  assume "\<forall>p\<in>set tps. f64_round (raw_dist p) = raw_dist p"
  with r show "map dist_calculated (rescale_f64 target tps) = map raw_dist tps"
    by (simp add: rescale_f64_def set_dist_calculated_f64_def comp_def f64_mul_def)
qed

text \<open>
  On the series of \<open>gps_a\<close> and \<open>gps_b\<close>, target 7 km gives the last point 7000 m and
  target 21 km gives it \<open>21000 + 2\<^sup>-\<^sup>3\<^sup>8\<close> m (Python prints \<^verbatim>\<open>21000.000000000004\<close>), not
  three times 7000.
\<close>

theorem rescale_linearity_counterexample:
  "map dist_calculated (rescale_f64 7000 series_f64) = [0, 7000] \<and>
   map dist_calculated (rescale_f64 (3 * 7000) series_f64) =
     [0, 5772436045824001 / 274877906944] \<and>
   (5772436045824001 / 274877906944 :: real) \<noteq> 3 * 7000"
  using rescale_f64_7000 rescale_f64_21000 by simp

theorem rescale_identity_witness:
  "raw_dist (last series_f64) = 5372758950969361 / 268435456 \<and>
   f64_round 0 = 0 \<and>
   f64_round (5372758950969361 / 268435456) = 5372758950969361 / 268435456 \<and>
   correction_ratio (5372758950969361 / 268435456) (5372758950969361 / 268435456) = 1 \<and>
   map dist_calculated (rescale (5372758950969361 / 268435456) series_f64) =
     [0, 5372758950969361 / 268435456] \<and>
   correction_ratio_f64 (5372758950969361 / 268435456) (5372758950969361 / 268435456) = 1 \<and>
   map dist_calculated (rescale_f64 (5372758950969361 / 268435456) series_f64) =
     [0, 5372758950969361 / 268435456]"
proof -
  note inst = rescale_identity [of "5372758950969361 / 268435456" series_f64]
  have l: "raw_dist (last series_f64) = 5372758950969361 / 268435456"
    by (simp add: series_f64_def)
  have d: "\<forall>p\<in>set series_f64. f64_round (raw_dist p) = raw_dist p"
    by (simp add: series_f64_def f64_round_zero raw_is_double)
  have m: "map raw_dist series_f64 = [0, 5372758950969361 / 268435456]"
    by (simp add: series_f64_def)
  have a: "correction_ratio (5372758950969361 / 268435456) (raw_dist (last series_f64)) = 1 \<and>
      map dist_calculated (rescale (5372758950969361 / 268435456) series_f64) =
        map raw_dist series_f64"
    by (rule inst [THEN conjunct1, rule_format]) (simp add: l)
  have b: "correction_ratio_f64 (5372758950969361 / 268435456) (raw_dist (last series_f64)) = 1 \<and>
      map dist_calculated (rescale_f64 (5372758950969361 / 268435456) series_f64) =
        map raw_dist series_f64"
    by (rule inst [THEN conjunct2, rule_format]) (simp add: l, use d in blast)
  from a b l m f64_round_zero raw_is_double show ?thesis by (simp only: simp_thms)
qed

section \<open>Claims about the whole run\<close>

lemma dt_sub_utc: "dt_sub (utc a) (utc b) = Inr (a - b)"
  by (simp add: dt_sub_def utc_def)

lemma argv_target:
  "length sample_argv = 2"
  "py_float sample_lib (str_replace CHR '','' ''.'' (sample_argv ! 1)) = Some 10"
  "py_float sample_lib (str_replace CHR '','' ''.'' (sample_argv ! Suc 0)) = Some 10"
  by (simp_all add: sample_argv_def str_replace_def sample_lib_def)

lemma build_single:
  "build_track sample_lib [] [gps_a] =
     Inr [\<lparr>lat = 0, lon = 0, ele = 0, time = utc 1704103200000000, raw_dist = 0, hr = None\<rparr>]"
  by (simp add: build_track_def gps_a_def float_samples parse_time_text_def parse_t0
      get_closest_hr_def)

lemma run_without_hr_file:
  "main sample_lib (sample_fs (Some (Document [gps_a])) None) sample_argv = MissingInputFile"
  by (simp add: main_def argv_target sample_fs_def file_gps_def file_hr_def)

lemma run_single_point:
  "main sample_lib (sample_fs (Some (Document [gps_a])) (Some (Document []))) sample_argv =
     Created \<lparr>activity_id = utc 1704103200000000, lap_start_time = utc 1704103200000000,
              total_time_seconds = 0, distance_meters = 10000,
              track = [\<lparr>tp_time = utc 1704103200000000, latitude_degrees = 0,
                        longitude_degrees = 0, altitude_meters = 0, tp_distance_meters = 0,
                        heart_rate_bpm = None\<rparr>]\<rparr>"
  by (simp add: main_def argv_target sample_fs_def file_gps_def file_hr_def load_hr_data_def
      build_single finish_def rescale_def set_dist_calculated_def create_tcx_def
      write_trackpoint_def dt_sub_utc total_seconds_def Let_def)

lemma main_Created:
  assumes "main L fs argv = Created doc"
  shows "\<exists>target_km hr_data es tps.
           py_float L (str_replace CHR '','' ''.'' (argv ! 1)) = Some target_km \<and>
           load_hr_data L fs file_hr = Inr hr_data \<and>
           fs file_gps = Some (Document es) \<and>
           build_track L hr_data es = Inr tps \<and> tps \<noteq> [] \<and>
           finish target_km tps = Created doc"
  using assms
  by (auto simp: main_def split: if_splits option.splits sum.splits xml_file.splits)

lemma finish_Created:
  assumes "finish target_km tps = Created doc"
  shows "distance_meters doc = target_km * 1000 \<and>
         track doc = map write_trackpoint (rescale (target_km * 1000) tps)"
  using assms by (auto simp: finish_def create_tcx_def Let_def split: sum.splits)

lemma build_track_no_hr:
  assumes "build_track L [] es = Inr tps" and "p \<in> set tps"
  shows "hr p = None"
proof -
  from build_track_chain [OF assms(1)] assms(2) have "hr_matched [] p" by (simp add: list_all_iff)
  then show ?thesis by (simp add: hr_matched_def get_closest_hr_def)
qed

lemma write_trackpoint_no_hr: "hr p = None \<Longrightarrow> heart_rate_bpm (write_trackpoint p) = None"
  by (simp add: write_trackpoint_def)

lemma rescale_set:
  "q \<in> set (rescale target tps) \<Longrightarrow> \<exists>p\<in>set tps. hr q = hr p"
  by (auto simp: rescale_def set_dist_calculated_def)

text \<open>
  C1, as the code has it: when the heart-rate file does not exist, \<^verbatim>\<open>load_hr_data\<close>
  returns the empty list, and with an empty list of samples every point of the merged
  series has no heart rate and the written document has no \<^verbatim>\<open>HeartRateBpm\<close> element.
  But \<^verbatim>\<open>main\<close> tests for both input files before it loads anything (lines 165 to
  167): with the heart-rate file missing the run ends with one of the diagnostics, at the
  latest the one for missing input files, and writes no document.
\<close>

theorem missing_hr_file:
  "(fs path = None \<longrightarrow> load_hr_data L fs path = Inr []) \<and>
   (\<forall>tps. build_track L [] es = Inr tps \<longrightarrow>
      (\<forall>p\<in>set tps. hr p = None) \<and>
      (\<forall>q\<in>set (track (create_tcx (rescale target tps) start_time duration total_dist)).
         heart_rate_bpm q = None)) \<and>
   (fs file_hr = None \<longrightarrow>
      main L fs argv = MissingArgument \<or> main L fs argv = InvalidNumber \<or>
      main L fs argv = MissingInputFile)"
proof (intro conjI allI impI ballI)
  assume "fs path = None"
  then show "load_hr_data L fs path = Inr []" by (simp add: load_hr_data_def)
next
  fix tps p
  assume "build_track L [] es = Inr tps" and "p \<in> set tps"
  then show "hr p = None" by (rule build_track_no_hr)
next
  fix tps q
  assume b: "build_track L [] es = Inr tps"
    and q: "q \<in> set (track (create_tcx (rescale target tps) start_time duration total_dist))"
  from q obtain c where c: "c \<in> set (rescale target tps)" and qc: "q = write_trackpoint c"
    by (auto simp: create_tcx_def)
  from rescale_set [OF c] obtain p where "p \<in> set tps" "hr c = hr p" by blast
  with build_track_no_hr [OF b] have "hr c = None" by simp
  then show "heart_rate_bpm q = None" using qc by (simp add: write_trackpoint_no_hr)
next
  assume "fs file_hr = None"
  then show "main L fs argv = MissingArgument \<or> main L fs argv = InvalidNumber \<or>
      main L fs argv = MissingInputFile"
    by (simp add: main_def split: option.splits)
qed

text \<open>
  A run with a valid argument and a GPS file of one point, and no heart-rate file: it
  ends with the diagnostic for missing input files.
\<close>

theorem missing_hr_file_counterexample:
  "sample_fs (Some (Document [gps_a])) None ''HR.gpx'' = None \<and>
   main sample_lib (sample_fs (Some (Document [gps_a])) None) sample_argv = MissingInputFile"
  by (simp add: run_without_hr_file) (simp add: sample_fs_def)

theorem missing_hr_file_witness:
  "sample_fs (Some (Document [gps_a])) None file_hr = None \<and>
   load_hr_data sample_lib (sample_fs (Some (Document [gps_a])) None) file_hr = Inr [] \<and>
   build_track sample_lib [] [gps_a] =
     Inr [\<lparr>lat = 0, lon = 0, ele = 0, time = utc 1704103200000000, raw_dist = 0, hr = None\<rparr>] \<and>
   map heart_rate_bpm
     (track (create_tcx
        (rescale 10000
           [\<lparr>lat = 0, lon = 0, ele = 0, time = utc 1704103200000000, raw_dist = 0, hr = None\<rparr>])
        (utc 1704103200000000) 0 10000)) = [None] \<and>
   main sample_lib (sample_fs (Some (Document [gps_a])) None) sample_argv = MissingInputFile"
proof -
  let ?fs = "sample_fs (Some (Document [gps_a])) None"
  let ?tps = "[\<lparr>lat = 0, lon = 0, ele = 0, time = utc 1704103200000000, raw_dist = 0, hr = None\<rparr>]"
  note inst = missing_hr_file [of ?fs file_hr sample_lib "[gps_a]" 10000 "utc 1704103200000000"
      0 10000 sample_argv]
  have absent: "?fs file_hr = None" by (simp add: sample_fs_def file_hr_def)
  have load: "load_hr_data sample_lib ?fs file_hr = Inr []"
    by (rule inst [THEN conjunct1, rule_format]) (rule absent)
  have "\<forall>q\<in>set (track (create_tcx (rescale 10000 ?tps) (utc 1704103200000000) 0 10000)).
          heart_rate_bpm q = None"
    by (rule inst [THEN conjunct2, THEN conjunct1, rule_format, THEN conjunct2]) (rule build_single)
  then have out: "map heart_rate_bpm
     (track (create_tcx (rescale 10000 ?tps) (utc 1704103200000000) 0 10000)) = [None]"
    by (simp add: create_tcx_def rescale_def)
  show ?thesis using absent load build_single out run_without_hr_file by blast
qed

text \<open>
  C2, as the code has it: in every run that writes a document, the \<^verbatim>\<open>DistanceMeters\<close>
  of the lap is the target distance in meters, \<open>target_km * 1000\<close>, which \<^verbatim>\<open>main\<close>
  passes to \<^verbatim>\<open>create_tcx\<close> (line 231); it is not read from the series. The corrected
  distance of the last point is the raw total times the ratio. When the raw total is 0
  it is 0, and the lap still carries the target.
\<close>

theorem lap_distance_is_target:
  assumes "main L fs argv = Created doc"
  shows "\<exists>target_km hr_data es tps.
           py_float L (str_replace CHR '','' ''.'' (argv ! 1)) = Some target_km \<and>
           load_hr_data L fs file_hr = Inr hr_data \<and>
           fs file_gps = Some (Document es) \<and>
           build_track L hr_data es = Inr tps \<and> tps \<noteq> [] \<and>
           distance_meters doc = target_km * 1000 \<and>
           map tp_distance_meters (track doc) =
             map dist_calculated (rescale (target_km * 1000) tps) \<and>
           tp_distance_meters (last (track doc)) =
             raw_dist (last tps) * correction_ratio (target_km * 1000) (raw_dist (last tps)) \<and>
           (raw_dist (last tps) = 0 \<longrightarrow> tp_distance_meters (last (track doc)) = 0)"
proof -
  from main_Created [OF assms] obtain target_km hr_data es tps where
    a: "py_float L (str_replace CHR '','' ''.'' (argv ! 1)) = Some target_km"
       "load_hr_data L fs file_hr = Inr hr_data" "fs file_gps = Some (Document es)"
       "build_track L hr_data es = Inr tps" "tps \<noteq> []"
    and f: "finish target_km tps = Created doc" by blast
  from finish_Created [OF f] have d: "distance_meters doc = target_km * 1000"
    and t: "track doc = map write_trackpoint (rescale (target_km * 1000) tps)" by simp_all
  have m: "map tp_distance_meters (track doc) =
             map dist_calculated (rescale (target_km * 1000) tps)"
    by (simp add: t write_trackpoint_def comp_def)
  have l: "tp_distance_meters (last (track doc)) =
             raw_dist (last tps) * correction_ratio (target_km * 1000) (raw_dist (last tps))"
    using a(5) by (simp add: t rescale_def last_map write_trackpoint_def set_dist_calculated_def)
  have z: "raw_dist (last tps) = 0 \<longrightarrow> tp_distance_meters (last (track doc)) = 0"
    by (simp add: l)
  from a d m l z show ?thesis by blast
qed

text \<open>
  A run on a GPS file of one point with target 10 km: the lap carries 10000 m, the only
  point 0 m.
\<close>

theorem lap_distance_is_target_counterexample:
  "(case main sample_lib (sample_fs (Some (Document [gps_a])) (Some (Document []))) sample_argv of
      Created doc \<Rightarrow>
        distance_meters doc = 10000 \<and> map tp_distance_meters (track doc) = [0] \<and>
        distance_meters doc \<noteq> tp_distance_meters (last (track doc))
    | _ \<Rightarrow> False)"
  by (simp add: run_single_point)

theorem lap_distance_is_target_witness:
  "main sample_lib (sample_fs (Some (Document [gps_a])) (Some (Document []))) sample_argv =
     Created \<lparr>activity_id = utc 1704103200000000, lap_start_time = utc 1704103200000000,
              total_time_seconds = 0, distance_meters = 10000,
              track = [\<lparr>tp_time = utc 1704103200000000, latitude_degrees = 0,
                        longitude_degrees = 0, altitude_meters = 0, tp_distance_meters = 0,
                        heart_rate_bpm = None\<rparr>]\<rparr> \<and>
   py_float sample_lib (str_replace CHR '','' ''.'' (sample_argv ! 1)) = Some 10 \<and>
   build_track sample_lib [] [gps_a] =
     Inr [\<lparr>lat = 0, lon = 0, ele = 0, time = utc 1704103200000000, raw_dist = 0, hr = None\<rparr>] \<and>
   raw_dist (last [\<lparr>lat = 0, lon = 0, ele = 0, time = utc 1704103200000000, raw_dist = 0,
                    hr = None\<rparr>]) = 0 \<and>
   (10000::real) = 10 * 1000"
proof -
  let ?fs = "sample_fs (Some (Document [gps_a])) (Some (Document []))"
  let ?p = "\<lparr>lat = 0, lon = 0, ele = 0, time = utc 1704103200000000, raw_dist = 0, hr = None\<rparr>"
  from lap_distance_is_target [OF run_single_point] obtain target_km where
    k: "py_float sample_lib (str_replace CHR '','' ''.'' (sample_argv ! 1)) = Some target_km"
    and d: "(10000::real) = target_km * 1000"
    by auto
  from k have "target_km = 10" by (simp add: argv_target)
  with d have ten: "(10000::real) = 10 * 1000" by simp
  have zero: "raw_dist (last [?p]) = 0" by simp
  from run_single_point argv_target(2) build_single zero ten show ?thesis by blast
qed

section \<open>Claims about heart-rate loading\<close>

lemma hr_loop_append:
  "hr_loop L (xs @ ys) acc =
     (case hr_loop L xs acc of Inl err \<Rightarrow> Inl err | Inr pts \<Rightarrow> hr_loop L ys pts)"
  by (induction xs arbitrary: acc) (auto split: option.splits sum.splits)

lemma hr_loop_nonzero:
  "hr_loop L es acc = Inr pts \<Longrightarrow> \<forall>s\<in>set acc. snd s \<noteq> 0 \<Longrightarrow> \<forall>s\<in>set pts. snd s \<noteq> 0"
proof (induction es arbitrary: acc)
  case Nil
  then show ?case by simp
next
  case (Cons e es)
  show ?case
  proof (cases "time_el e")
    case None
    with Cons.prems have "hr_loop L es acc = Inr pts" by simp
    then show ?thesis using Cons.prems(2) by (rule Cons.IH)
  next
    case (Some tx)
    with Cons.prems(1) obtain t where t: "parse_time_text L tx = Inr t"
      by (auto split: sum.splits)
    show ?thesis
    proof (cases "hr_el e")
      case None
      with Cons.prems(1) Some t have "hr_loop L es acc = Inr pts" by simp
      then show ?thesis using Cons.prems(2) by (rule Cons.IH)
    next
      case hx: (Some hx)
      with Cons.prems(1) Some t obtain h where h: "to_int L hx = Inr h"
        by (auto split: sum.splits)
      show ?thesis
      proof (cases "h = 0")
        case True
        with Cons.prems(1) Some t hx h have "hr_loop L es acc = Inr pts" by simp
        then show ?thesis using Cons.prems(2) by (rule Cons.IH)
      next
        case False
        with Cons.prems(1) Some t hx h have "hr_loop L es (acc @ [(t, h)]) = Inr pts" by simp
        moreover have "\<forall>s\<in>set (acc @ [(t, h)]). snd s \<noteq> 0" using Cons.prems(2) False by simp
        ultimately show ?thesis by (rule Cons.IH)
      qed
    qed
  qed
qed

lemma hr_loop_skip:
  assumes "\<And>acc. hr_loop L [e] acc = Inr acc"
  shows "hr_loop L (es1 @ e # es2) acc0 = hr_loop L (es1 @ es2) acc0"
proof -
  have step: "hr_loop L (e # es2) acc = hr_loop L es2 acc" for acc
    using hr_loop_append [of L "[e]" es2 acc] assms [of acc] by simp
  show ?thesis
    unfolding hr_loop_append [of L es1]
    by (cases "hr_loop L es1 acc0") (simp_all only: sum.case step)
qed

lemma write_trackpoint_nonzero: "heart_rate_bpm (write_trackpoint p) \<noteq> Some 0"
  by (simp add: write_trackpoint_def split: option.splits)

text \<open>
  C8: the samples loaded from a heart-rate file never have the value 0. An entry with no
  time element contributes nothing: the file without that entry loads to the same
  result. So does an entry whose time parses and that has no heart-rate element, and one
  whose heart-rate text converts to 0. And no \<^verbatim>\<open>Trackpoint\<close> of a written document has
  a \<^verbatim>\<open>HeartRateBpm\<close> element with value 0.
\<close>

theorem hr_zero_or_absent_skipped:
  assumes "fs path = Some (Document (es1 @ e # es2))"
    and "fs' path = Some (Document (es1 @ es2))"
  shows "(\<forall>pts. load_hr_data L fs path = Inr pts \<longrightarrow> (\<forall>s\<in>set pts. snd s \<noteq> 0)) \<and>
         (time_el e = None \<longrightarrow> load_hr_data L fs path = load_hr_data L fs' path) \<and>
         (\<forall>tx t. time_el e = Some tx \<longrightarrow> parse_time_text L tx = Inr t \<longrightarrow> hr_el e = None \<longrightarrow>
            load_hr_data L fs path = load_hr_data L fs' path) \<and>
         (\<forall>tx t hx. time_el e = Some tx \<longrightarrow> parse_time_text L tx = Inr t \<longrightarrow>
            hr_el e = Some hx \<longrightarrow> to_int L hx = Inr 0 \<longrightarrow>
            load_hr_data L fs path = load_hr_data L fs' path) \<and>
         (\<forall>q\<in>set (track (create_tcx points start_time duration total_dist)).
            heart_rate_bpm q \<noteq> Some 0)"
proof (intro conjI allI impI ballI)
  fix pts s
  assume "load_hr_data L fs path = Inr pts" and "s \<in> set pts"
  then show "snd s \<noteq> 0"
    using hr_loop_nonzero [of L "es1 @ e # es2" "[]" pts] assms(1)
    by (simp add: load_hr_data_def)
next
  assume "time_el e = None"
  then have "hr_loop L [e] acc = Inr acc" for acc by simp
  then show "load_hr_data L fs path = load_hr_data L fs' path"
    using assms by (simp add: load_hr_data_def hr_loop_skip)
next
  fix tx t
  assume "time_el e = Some tx" "parse_time_text L tx = Inr t" "hr_el e = None"
  then have "hr_loop L [e] acc = Inr acc" for acc by simp
  then show "load_hr_data L fs path = load_hr_data L fs' path"
    using assms by (simp add: load_hr_data_def hr_loop_skip)
next
  fix tx t hx
  assume "time_el e = Some tx" "parse_time_text L tx = Inr t" "hr_el e = Some hx"
    "to_int L hx = Inr 0"
  then have "hr_loop L [e] acc = Inr acc" for acc by simp
  then show "load_hr_data L fs path = load_hr_data L fs' path"
    using assms by (simp add: load_hr_data_def hr_loop_skip)
next
  fix q
  assume "q \<in> set (track (create_tcx points start_time duration total_dist))"
  then show "heart_rate_bpm q \<noteq> Some 0"
    by (auto simp: create_tcx_def write_trackpoint_nonzero)
qed

lemma int_samples:
  "to_int sample_lib (Some ''150'') = Inr 150"
  "to_int sample_lib (Some ''0'') = Inr 0"
  "to_int sample_lib (Some ''-5'') = Inr (- 5)"
  by (simp_all add: to_int_def sample_lib_def)

lemma parse_sample_time:
  "parse_time_text sample_lib (Some ''2024-01-01T10:00:00Z'') = Inr (utc 1704103200000000)"
  by (simp add: parse_time_text_def parse_t0)

lemma load_one_sample:
  "load_hr_data sample_lib
     (sample_fs None (Some (Document [hr_entry sample_time (Some (Some ''150''))]))) file_hr =
   Inr [(utc 1704103200000000, 150)]"
  by (simp add: load_hr_data_def sample_fs_def file_hr_def hr_entry_def sample_time_def
      parse_sample_time int_samples)

theorem hr_zero_or_absent_skipped_witness:
  "load_hr_data sample_lib
     (sample_fs None (Some (Document ([] @ hr_entry None (Some (Some ''150'')) #
        [hr_entry sample_time (Some (Some ''150''))])))) file_hr =
   Inr [(utc 1704103200000000, 150)] \<and>
   load_hr_data sample_lib
     (sample_fs None (Some (Document ([] @ hr_entry sample_time None #
        [hr_entry sample_time (Some (Some ''150''))])))) file_hr =
   Inr [(utc 1704103200000000, 150)] \<and>
   load_hr_data sample_lib
     (sample_fs None (Some (Document ([] @ hr_entry sample_time (Some (Some ''0'')) #
        [hr_entry sample_time (Some (Some ''150''))])))) file_hr =
   Inr [(utc 1704103200000000, 150)] \<and>
   to_int sample_lib (Some ''0'') = Inr 0 \<and>
   parse_time_text sample_lib (Some ''2024-01-01T10:00:00Z'') = Inr (utc 1704103200000000)"
proof -
  let ?ok = "hr_entry sample_time (Some (Some ''150''))"
  let ?fs' = "sample_fs None (Some (Document ([] @ [?ok])))"
  have fs': "?fs' file_hr = Some (Document ([] @ [?ok]))"
    by (simp add: sample_fs_def file_hr_def)
  have fs: "sample_fs None (Some (Document ([] @ e # [?ok]))) file_hr =
              Some (Document ([] @ e # [?ok]))" for e
    by (simp add: sample_fs_def file_hr_def)
  have base: "load_hr_data sample_lib ?fs' file_hr = Inr [(utc 1704103200000000, 150)]"
    using load_one_sample by simp
  note inst = hr_zero_or_absent_skipped [where L = sample_lib and path = file_hr and ?es1.0 = "[]"
      and ?es2.0 = "[?ok]" and fs' = ?fs']
  have a: "load_hr_data sample_lib
             (sample_fs None (Some (Document ([] @ hr_entry None (Some (Some ''150'')) # [?ok]))))
             file_hr = load_hr_data sample_lib ?fs' file_hr"
    by (rule inst [where e = "hr_entry None (Some (Some ''150''))"
          and fs = "sample_fs None (Some (Document ([] @ hr_entry None (Some (Some ''150'')) # [?ok])))",
          OF fs fs', THEN conjunct2, THEN conjunct1, rule_format])
      (simp add: hr_entry_def)
  have b: "load_hr_data sample_lib
             (sample_fs None (Some (Document ([] @ hr_entry sample_time None # [?ok]))))
             file_hr = load_hr_data sample_lib ?fs' file_hr"
    by (rule inst [where e = "hr_entry sample_time None"
          and fs = "sample_fs None (Some (Document ([] @ hr_entry sample_time None # [?ok])))",
          OF fs fs', THEN conjunct2, THEN conjunct2, THEN conjunct1,
          rule_format, of "Some ''2024-01-01T10:00:00Z''" "utc 1704103200000000"])
      (simp_all add: hr_entry_def sample_time_def parse_sample_time)
  have c: "load_hr_data sample_lib
             (sample_fs None (Some (Document ([] @ hr_entry sample_time (Some (Some ''0'')) # [?ok]))))
             file_hr = load_hr_data sample_lib ?fs' file_hr"
    by (rule inst [where e = "hr_entry sample_time (Some (Some ''0''))"
          and fs = "sample_fs None (Some (Document ([] @ hr_entry sample_time (Some (Some ''0'')) # [?ok])))",
          OF fs fs', THEN conjunct2, THEN conjunct2, THEN conjunct2, THEN conjunct1, rule_format,
          of "Some ''2024-01-01T10:00:00Z''" "utc 1704103200000000" "Some ''0''"])
      (simp_all add: hr_entry_def sample_time_def parse_sample_time int_samples)
  from a b c base int_samples(2) parse_sample_time show ?thesis by (simp only: simp_thms)
qed

section \<open>Claims about time parsing and negative heart rates\<close>

lemma str_replace_append: "str_replace c r (s @ u) = str_replace c r s @ str_replace c r u"
  by (simp add: str_replace_def)

text \<open>
  C9, as the code has it: a trailing \<^verbatim>\<open>Z\<close> is rewritten to \<^verbatim>\<open>+00:00\<close> before the
  first parse, whose result is returned when it succeeds. When it fails and the text
  contains a dot, the text before the first dot followed by \<^verbatim>\<open>+00:00\<close> is parsed
  instead; when it fails and the text contains no dot, the same text is parsed again
  (line 28 guards the truncation), so the call fails. The call fails exactly when both
  attempts fail, and then with \<^verbatim>\<open>ValueError\<close>.
\<close>

theorem parse_time_attempts:
  "str_replace CHR ''Z'' ''+00:00'' (s @ ''Z'') = str_replace CHR ''Z'' ''+00:00'' s @ ''+00:00'' \<and>
   (\<forall>d. fromisoformat L (str_replace CHR ''Z'' ''+00:00'' t) = Some d \<longrightarrow>
      parse_time L t = Inr d) \<and>
   (fromisoformat L (str_replace CHR ''Z'' ''+00:00'' t) = None \<longrightarrow>
    CHR ''.'' \<in> set (str_replace CHR ''Z'' ''+00:00'' t) \<longrightarrow>
      parse_time L t =
        (case fromisoformat L
                (takeWhile (\<lambda>x. x \<noteq> CHR ''.'') (str_replace CHR ''Z'' ''+00:00'' t) @ ''+00:00'') of
           Some d \<Rightarrow> Inr d
         | None \<Rightarrow> Inl ValueError)) \<and>
   (fromisoformat L (str_replace CHR ''Z'' ''+00:00'' t) = None \<longrightarrow>
    CHR ''.'' \<notin> set (str_replace CHR ''Z'' ''+00:00'' t) \<longrightarrow>
      parse_time L t = Inl ValueError) \<and>
   ((\<exists>err. parse_time L t = Inl err) \<longleftrightarrow>
      fromisoformat L (str_replace CHR ''Z'' ''+00:00'' t) = None \<and>
      fromisoformat L
        (if CHR ''.'' \<in> set (str_replace CHR ''Z'' ''+00:00'' t)
         then takeWhile (\<lambda>x. x \<noteq> CHR ''.'') (str_replace CHR ''Z'' ''+00:00'' t) @ ''+00:00''
         else str_replace CHR ''Z'' ''+00:00'' t) = None) \<and>
   (\<forall>err. parse_time L t = Inl err \<longrightarrow> err = ValueError)"
proof (intro conjI allI impI)
  show "str_replace CHR ''Z'' ''+00:00'' (s @ ''Z'') = str_replace CHR ''Z'' ''+00:00'' s @ ''+00:00''"
    by (simp add: str_replace_def)
next
  fix d assume "fromisoformat L (str_replace CHR ''Z'' ''+00:00'' t) = Some d"
  then show "parse_time L t = Inr d" by (simp add: parse_time_def)
next
  assume "fromisoformat L (str_replace CHR ''Z'' ''+00:00'' t) = None"
    and "CHR ''.'' \<in> set (str_replace CHR ''Z'' ''+00:00'' t)"
  then show "parse_time L t =
        (case fromisoformat L
                (takeWhile (\<lambda>x. x \<noteq> CHR ''.'') (str_replace CHR ''Z'' ''+00:00'' t) @ ''+00:00'') of
           Some d \<Rightarrow> Inr d
         | None \<Rightarrow> Inl ValueError)"
    by (simp add: parse_time_def)
next
  assume "fromisoformat L (str_replace CHR ''Z'' ''+00:00'' t) = None"
    and "CHR ''.'' \<notin> set (str_replace CHR ''Z'' ''+00:00'' t)"
  then show "parse_time L t = Inl ValueError" by (simp add: parse_time_def)
next
  show "(\<exists>err. parse_time L t = Inl err) \<longleftrightarrow>
      fromisoformat L (str_replace CHR ''Z'' ''+00:00'' t) = None \<and>
      fromisoformat L
        (if CHR ''.'' \<in> set (str_replace CHR ''Z'' ''+00:00'' t)
         then takeWhile (\<lambda>x. x \<noteq> CHR ''.'') (str_replace CHR ''Z'' ''+00:00'' t) @ ''+00:00''
         else str_replace CHR ''Z'' ''+00:00'' t) = None"
    by (cases "fromisoformat L (str_replace CHR ''Z'' ''+00:00'' t)")
      (auto simp: parse_time_def Let_def split: option.splits)
next
  fix err assume "parse_time L t = Inl err"
  then show "err = ValueError"
    by (auto simp: parse_time_def Let_def split: option.splits if_splits)
qed

text \<open>
  The text \<^verbatim>\<open>2024-01-01T10:00:\<close> has no dot. Python 3.11 rejects it and accepts it
  with \<^verbatim>\<open>+00:00\<close> appended, so the fallback as the specification words it succeeds
  where \<open>parse_time\<close> raises.
\<close>

theorem parse_time_attempts_counterexample:
  "parse_time py311_lib ''2024-01-01T10:00:'' = Inl ValueError \<and>
   parse_time_spec py311_lib ''2024-01-01T10:00:'' = Inr (utc 1704103200000000)"
  by (simp add: parse_time_def parse_time_spec_def normalize_trailing_Z_def str_replace_def
      py311_lib_def)

lemma norm_fraction:
  "str_replace CHR ''Z'' ''+00:00'' ''2024-01-01T10:00:00.5Z'' = ''2024-01-01T10:00:00.5+00:00''"
  "str_replace CHR ''Z'' ''+00:00'' ''2024-01-01T10:00:00Z'' = ''2024-01-01T10:00:00+00:00''"
  "str_replace CHR ''Z'' ''+00:00'' ''yesterday'' = ''yesterday''"
  by (simp_all add: str_replace_def)

lemma iso_samples:
  "fromisoformat sample_lib ''2024-01-01T10:00:00.5+00:00'' = None"
  "fromisoformat sample_lib ''2024-01-01T10:00:00+00:00'' = Some (utc 1704103200000000)"
  "fromisoformat sample_lib ''yesterday'' = None"
  by (simp_all add: sample_lib_def)

theorem parse_time_attempts_witness:
  "parse_time sample_lib ''2024-01-01T10:00:00Z'' = Inr (utc 1704103200000000) \<and>
   fromisoformat sample_lib ''2024-01-01T10:00:00.5+00:00'' = None \<and>
   parse_time sample_lib ''2024-01-01T10:00:00.5Z'' = Inr (utc 1704103200000000) \<and>
   fromisoformat sample_lib ''yesterday'' = None \<and>
   parse_time sample_lib ''yesterday'' = Inl ValueError"
proof -
  have a: "parse_time sample_lib ''2024-01-01T10:00:00Z'' = Inr (utc 1704103200000000)"
    by (rule parse_time_attempts [THEN conjunct2, THEN conjunct1, rule_format])
      (simp add: norm_fraction iso_samples)
  have "parse_time sample_lib ''2024-01-01T10:00:00.5Z'' =
        (case fromisoformat sample_lib
                (takeWhile (\<lambda>x. x \<noteq> CHR ''.'')
                   (str_replace CHR ''Z'' ''+00:00'' ''2024-01-01T10:00:00.5Z'') @ ''+00:00'') of
           Some d \<Rightarrow> Inr d
         | None \<Rightarrow> Inl ValueError)"
    by (rule parse_time_attempts [THEN conjunct2, THEN conjunct2, THEN conjunct1, rule_format])
      (simp_all add: norm_fraction iso_samples)
  then have b: "parse_time sample_lib ''2024-01-01T10:00:00.5Z'' = Inr (utc 1704103200000000)"
    by (simp add: norm_fraction iso_samples)
  have c: "parse_time sample_lib ''yesterday'' = Inl ValueError"
    by (rule parse_time_attempts [THEN conjunct2, THEN conjunct2, THEN conjunct2, THEN conjunct1,
          rule_format])
      (simp_all add: norm_fraction iso_samples)
  from a b c iso_samples(1,3) show ?thesis by (simp only: simp_thms)
qed

lemma abs_diff_near:
  assumes "abs_diff t' t = Inr d" and "d < 5"
  shows "get_closest_hr t' [(t, h)] = Inr (Some h)"
  using assms by (simp add: get_closest_hr_def Let_def)

text \<open>
  C10: only zero counts as an absent heart rate. A heart-rate file whose single entry
  has a time that parses and a value that converts to a negative integer loads to that
  one sample; the lookup at any time less than 5 seconds from it returns the negative
  value; and the writer puts the negative value of a point into its \<^verbatim>\<open>HeartRateBpm\<close>
  element.
\<close>

theorem negative_hr_kept:
  assumes "fs path = Some (Document [e])"
    and "time_el e = Some (Some tx)" and "parse_time L tx = Inr t"
    and "hr_el e = Some (Some hx)" and "py_int L hx = Some h" and "h < 0"
    and "abs_diff t' t = Inr d" and "d < 5"
    and "hr p = Some h"
  shows "load_hr_data L fs path = Inr [(t, h)] \<and>
         get_closest_hr t' [(t, h)] = Inr (Some h) \<and>
         heart_rate_bpm (write_trackpoint p) = Some h"
proof (intro conjI)
  show "load_hr_data L fs path = Inr [(t, h)]"
    using assms(1-6) by (simp add: load_hr_data_def parse_time_text_def to_int_def)
  show "get_closest_hr t' [(t, h)] = Inr (Some h)"
    using assms(7,8) by (rule abs_diff_near)
  show "heart_rate_bpm (write_trackpoint p) = Some h"
    using assms(6,9) by (simp add: write_trackpoint_def)
qed

lemma build_negative:
  "build_track sample_lib [(utc 1704103200000000, - 5)] [gps_a] =
     Inr [\<lparr>lat = 0, lon = 0, ele = 0, time = utc 1704103200000000, raw_dist = 0,
           hr = Some (- 5)\<rparr>]"
  by (simp add: build_track_def gps_a_def float_samples parse_time_text_def parse_t0
      get_closest_hr_def abs_diff_utc)

lemma run_negative_hr:
  "main sample_lib
     (sample_fs (Some (Document [gps_a]))
        (Some (Document [hr_entry sample_time (Some (Some ''-5''))]))) sample_argv =
   Created \<lparr>activity_id = utc 1704103200000000, lap_start_time = utc 1704103200000000,
            total_time_seconds = 0, distance_meters = 10000,
            track = [\<lparr>tp_time = utc 1704103200000000, latitude_degrees = 0,
                      longitude_degrees = 0, altitude_meters = 0, tp_distance_meters = 0,
                      heart_rate_bpm = Some (- 5)\<rparr>]\<rparr>"
  by (simp add: main_def argv_target sample_fs_def file_gps_def file_hr_def load_hr_data_def
      hr_entry_def sample_time_def parse_sample_time int_samples build_negative finish_def
      rescale_def set_dist_calculated_def create_tcx_def write_trackpoint_def dt_sub_utc
      total_seconds_def Let_def)

theorem negative_hr_kept_witness:
  "load_hr_data sample_lib
     (sample_fs (Some (Document [gps_a]))
        (Some (Document [hr_entry sample_time (Some (Some ''-5''))]))) file_hr =
   Inr [(utc 1704103200000000, - 5)] \<and>
   get_closest_hr (utc 1704103200000000) [(utc 1704103200000000, - 5)] = Inr (Some (- 5)) \<and>
   heart_rate_bpm
     (write_trackpoint
        \<lparr>lat = 0, lon = 0, ele = 0, time = utc 1704103200000000, raw_dist = 0,
         hr = Some (- 5), dist_calculated = 0\<rparr>) = Some (- 5) \<and>
   main sample_lib
     (sample_fs (Some (Document [gps_a]))
        (Some (Document [hr_entry sample_time (Some (Some ''-5''))]))) sample_argv =
   Created \<lparr>activity_id = utc 1704103200000000, lap_start_time = utc 1704103200000000,
            total_time_seconds = 0, distance_meters = 10000,
            track = [\<lparr>tp_time = utc 1704103200000000, latitude_degrees = 0,
                      longitude_degrees = 0, altitude_meters = 0, tp_distance_meters = 0,
                      heart_rate_bpm = Some (- 5)\<rparr>]\<rparr>"
proof -
  let ?e = "hr_entry sample_time (Some (Some ''-5''))"
  let ?fs = "sample_fs (Some (Document [gps_a])) (Some (Document [?e]))"
  let ?p = "\<lparr>lat = 0, lon = 0, ele = 0, time = utc 1704103200000000, raw_dist = 0,
         hr = Some (- 5), dist_calculated = 0\<rparr>"
  have 1: "?fs file_hr = Some (Document [?e])" by (simp add: sample_fs_def file_hr_def)
  have 2: "time_el ?e = Some (Some ''2024-01-01T10:00:00Z'')"
    by (simp add: hr_entry_def sample_time_def)
  have 3: "hr_el ?e = Some (Some ''-5'')" by (simp add: hr_entry_def)
  have 4: "py_int sample_lib ''-5'' = Some (- 5)" by (simp add: sample_lib_def)
  have 5: "(- 5 :: int) < 0" by simp
  have 6: "abs_diff (utc 1704103200000000) (utc 1704103200000000) = Inr 0"
    by (simp add: abs_diff_utc)
  have 7: "(0::real) < 5" by simp
  have 8: "hr ?p = Some (- 5)" by simp
  from negative_hr_kept [where fs = ?fs and path = file_hr and L = sample_lib and p = ?p,
      OF 1 2 parse_t0 3 4 5 6 7 8] run_negative_hr
  show ?thesis by (simp only: simp_thms)
qed

end
